theory Spec2Isabelle
  imports Complex_Main "HOL-Library.Word" "HOL-Library.AList"
begin

section \<open>JavaScript values\<close>

text \<open>
  A JavaScript string is a sequence of UTF-16 code units; \<open>.length\<close>, \<open>.substring\<close>,
  \<open>.trim\<close> and a regular expression without the \<open>u\<close> flag all work on code units.
  \<open>ascii\<close> embeds an ASCII literal.
\<close>

type_synonym jsstring = "16 word list"

definition ascii :: "string \<Rightarrow> jsstring" where
  "ascii s = map (\<lambda>c. of_nat (of_char c)) s"

text \<open>
  Numbers are IEEE doubles. Only their truthiness and their order against small integer
  constants are used by the code modelled here, so a finite double is represented by its
  exact rational value.
\<close>

datatype jsnum = NaN | Num rat | PosInfinity | NegInfinity

datatype jsval =
    JUndefined
  | JNull
  | JBool bool
  | JNumber jsnum
  | JString jsstring
  | JArray "jsval list"
  | JObject "(jsstring \<times> jsval) list"

type_synonym jsobject = "(jsstring \<times> jsval) list"

datatype jstype = TUndefined | TObject | TBoolean | TNumber | TString

fun typeof :: "jsval \<Rightarrow> jstype" where
  "typeof JUndefined = TUndefined"
| "typeof JNull = TObject"
| "typeof (JBool b) = TBoolean"
| "typeof (JNumber n) = TNumber"
| "typeof (JString s) = TString"
| "typeof (JArray xs) = TObject"
| "typeof (JObject ps) = TObject"

text \<open>ToBoolean: what \<open>!v\<close>, \<open>v && ...\<close> and \<open>v || ...\<close> test.\<close>

fun truthy :: "jsval \<Rightarrow> bool" where
  "truthy JUndefined = False"
| "truthy JNull = False"
| "truthy (JBool b) = b"
| "truthy (JNumber n) = (n \<noteq> NaN \<and> n \<noteq> Num 0)"
| "truthy (JString s) = (s \<noteq> [])"
| "truthy (JArray xs) = True"
| "truthy (JObject ps) = True"

text \<open>
  An object is its list of own properties in insertion order. Reading a property that
  is not there gives \<open>undefined\<close>; assigning keeps the position of a property that
  exists and appends a new one.
\<close>

definition getProp :: "jsobject \<Rightarrow> jsstring \<Rightarrow> jsval" where
  "getProp obj k = (case map_of obj k of Some v \<Rightarrow> v | None \<Rightarrow> JUndefined)"

definition setProp :: "jsobject \<Rightarrow> jsstring \<Rightarrow> jsval \<Rightarrow> jsobject" where
  "setProp obj k v = AList.update k v obj"

text \<open>The exceptions the modelled code can raise, and sequencing of steps that may raise.\<close>

datatype jserror = TypeError

definition andThen :: "'e + 'a \<Rightarrow> ('a \<Rightarrow> 'e + 'b) \<Rightarrow> 'e + 'b" where
  "andThen m f = (case m of Inl e \<Rightarrow> Inl e | Inr x \<Rightarrow> f x)"

text \<open>
  Calling a string method on a value: any value but a string has no such method
  (or is \<open>null\<close>/\<open>undefined\<close>), and the call raises a TypeError.
\<close>

fun asString :: "jsval \<Rightarrow> jserror + jsstring" where
  "asString (JString s) = Inr s"
| "asString v = Inl TypeError"

subsection \<open>Decimal keys and the spread of a value\<close>

fun decimal :: "nat \<Rightarrow> jsstring" where
  "decimal n = (if n < 10 then [of_nat (48 + n)]
                else decimal (n div 10) @ [of_nat (48 + n mod 10)])"

fun indexed :: "nat \<Rightarrow> jsval list \<Rightarrow> jsobject" where
  "indexed i [] = []"
| "indexed i (v # vs) = (decimal i, v) # indexed (Suc i) vs"

text \<open>
  \<open>{ ...data }\<close> copies the own enumerable properties of \<open>data\<close>: the properties of
  an object, the elements of an array and the code units of a string under their
  indices, and nothing for any other value.
\<close>

fun spread :: "jsval \<Rightarrow> jsobject" where
  "spread (JObject ps) = ps"
| "spread (JArray xs) = indexed 0 xs"
| "spread (JString s) = indexed 0 (map (\<lambda>c. JString [c]) s)"
| "spread v = []"

subsection \<open>White space and \<open>trim\<close>\<close>

text \<open>The WhiteSpace and LineTerminator code units, which \<open>trim\<close> strips and \<open>\s\<close> matches.\<close>

definition isWhiteSpace :: "16 word \<Rightarrow> bool" where
  "isWhiteSpace c =
     (c = 0x09 \<or> c = 0x0A \<or> c = 0x0B \<or> c = 0x0C \<or> c = 0x0D \<or> c = 0x20 \<or> c = 0xA0
      \<or> c = 0x1680 \<or> (0x2000 \<le> c \<and> c \<le> 0x200A) \<or> c = 0x2028 \<or> c = 0x2029
      \<or> c = 0x202F \<or> c = 0x205F \<or> c = 0x3000 \<or> c = 0xFEFF)"

definition trim :: "jsstring \<Rightarrow> jsstring" where
  "trim s = rev (dropWhile isWhiteSpace (rev (dropWhile isWhiteSpace s)))"

subsection \<open>The two regular expressions of the normalizer\<close>

definition isDigit :: "16 word \<Rightarrow> bool" where
  "isDigit c = (0x30 \<le> c \<and> c \<le> 0x39)"

text \<open>\<^verbatim>\<open>/^\d{4}-\d{2}-\d{2}$/\<close>\<close>

fun dateRegex_test :: "jsstring \<Rightarrow> bool" where
  "dateRegex_test [y1, y2, y3, y4, a, m1, m2, b, d1, d2] =
     (isDigit y1 \<and> isDigit y2 \<and> isDigit y3 \<and> isDigit y4 \<and> a = 0x2D
      \<and> isDigit m1 \<and> isDigit m2 \<and> b = 0x2D \<and> isDigit d1 \<and> isDigit d2)"
| "dateRegex_test s = False"

text \<open>\<^verbatim>\<open>/^([0-1][0-9]|2[0-3]):[0-5][0-9]$/\<close>\<close>

fun timeRegex_test :: "jsstring \<Rightarrow> bool" where
  "timeRegex_test [h1, h2, c, m1, m2] =
     ((((h1 = 0x30 \<or> h1 = 0x31) \<and> isDigit h2) \<or> (h1 = 0x32 \<and> 0x30 \<le> h2 \<and> h2 \<le> 0x33))
      \<and> c = 0x3A \<and> 0x30 \<le> m1 \<and> m1 \<le> 0x35 \<and> isDigit m2)"
| "timeRegex_test s = False"

section \<open>Dates\<close>

text \<open>
  A Date object holds a time value: milliseconds since the epoch, or NaN (\<open>None\<close>) for
  an invalid date. The day arithmetic is that of the language standard.
\<close>

definition msPerDay :: int where
  "msPerDay = 86400000"

definition DayFromYear :: "int \<Rightarrow> int" where
  "DayFromYear y =
     365 * (y - 1970) + (y - 1969) div 4 - (y - 1901) div 100 + (y - 1601) div 400"

definition InLeapYear :: "int \<Rightarrow> bool" where
  "InLeapYear y = (y mod 4 = 0 \<and> (y mod 100 \<noteq> 0 \<or> y mod 400 = 0))"

definition DaysInMonth :: "int \<Rightarrow> nat \<Rightarrow> nat" where
  "DaysInMonth y m =
     (if m = 2 then (if InLeapYear y then 29 else 28)
      else if m = 4 \<or> m = 6 \<or> m = 9 \<or> m = 11 then 30 else 31)"

text \<open>The number of days of year \<open>y\<close> that lie before its month \<open>m\<close> (1 to 12).\<close>

definition DaysBeforeMonth :: "int \<Rightarrow> nat \<Rightarrow> nat" where
  "DaysBeforeMonth y m = (\<Sum>k \<leftarrow> [1..<m]. DaysInMonth y k)"

definition MakeDay :: "int \<Rightarrow> nat \<Rightarrow> nat \<Rightarrow> int" where
  "MakeDay y m d = DayFromYear y + int (DaysBeforeMonth y m) + int d - 1"

definition validDate :: "int \<Rightarrow> nat \<Rightarrow> nat \<Rightarrow> bool" where
  "validDate y m d = (1 \<le> m \<and> m \<le> 12 \<and> 1 \<le> d \<and> d \<le> DaysInMonth y m)"

definition digitVal :: "16 word \<Rightarrow> nat" where
  "digitVal c = unat c - 48"

definition num2 :: "16 word \<Rightarrow> 16 word \<Rightarrow> nat" where
  "num2 a b = 10 * digitVal a + digitVal b"

definition num4 :: "16 word \<Rightarrow> 16 word \<Rightarrow> 16 word \<Rightarrow> 16 word \<Rightarrow> nat" where
  "num4 a b c d = 1000 * digitVal a + 100 * digitVal b + 10 * digitVal c + digitVal d"

text \<open>
  The date-only forms of the standard's date-time string format, \<open>YYYY-MM-DD\<close>,
  \<open>YYYY-MM\<close> and \<open>YYYY\<close>: the year, month and day they name.
\<close>

fun readDateOnly :: "jsstring \<Rightarrow> (int \<times> nat \<times> nat) option" where
  "readDateOnly [y1, y2, y3, y4, a, m1, m2, b, d1, d2] =
     (if isDigit y1 \<and> isDigit y2 \<and> isDigit y3 \<and> isDigit y4 \<and> a = 0x2D
         \<and> isDigit m1 \<and> isDigit m2 \<and> b = 0x2D \<and> isDigit d1 \<and> isDigit d2
         \<and> validDate (int (num4 y1 y2 y3 y4)) (num2 m1 m2) (num2 d1 d2)
      then Some (int (num4 y1 y2 y3 y4), num2 m1 m2, num2 d1 d2) else None)"
| "readDateOnly [y1, y2, y3, y4, a, m1, m2] =
     (if isDigit y1 \<and> isDigit y2 \<and> isDigit y3 \<and> isDigit y4 \<and> a = 0x2D
         \<and> isDigit m1 \<and> isDigit m2 \<and> validDate (int (num4 y1 y2 y3 y4)) (num2 m1 m2) 1
      then Some (int (num4 y1 y2 y3 y4), num2 m1 m2, 1) else None)"
| "readDateOnly [y1, y2, y3, y4] =
     (if isDigit y1 \<and> isDigit y2 \<and> isDigit y3 \<and> isDigit y4
      then Some (int (num4 y1 y2 y3 y4), 1, 1) else None)"
| "readDateOnly s = None"

text \<open>
  The engine: what the standard leaves to the implementation or to the host, and the
  built-in functions that work on Unicode tables or on floating-point numbers.
  \<^item> \<open>fallbackParse\<close> is the implementation-defined parsing of a string that is not
    in a date-only form above;
  \<^item> \<open>dateOfValue\<close> is the time value \<open>new Date(v)\<close> gets from a value that is not a
    string;
  \<^item> \<open>localTZA t isUTC\<close> is the offset of local time from UTC in milliseconds at
    the time value \<open>t\<close>, which is a UTC time when \<open>isUTC\<close> holds and a local time
    otherwise; it changes where the zone of the host changes its offset;
  \<^item> \<open>stringToNumber\<close> is \<open>Number(s)\<close> on a string;
  \<^item> \<open>toPropertyKey\<close> is the property name that a value which is not a string
    stands for in \<open>obj[v]\<close>;
  \<^item> \<open>percentOf c t\<close> is the double \<open>(c / t) * 100\<close> for a divisor that is not zero,
    and \<open>toFixed1\<close> is \<open>.toFixed(1)\<close> on it;
  \<^item> \<open>toLowerCase\<close> is the method of that name.
\<close>

record jsengine =
  fallbackParse :: "jsstring \<Rightarrow> int option"
  dateOfValue :: "jsval \<Rightarrow> int option"
  localTZA :: "int \<Rightarrow> bool \<Rightarrow> int"
  stringToNumber :: "jsstring \<Rightarrow> jsnum"
  toPropertyKey :: "jsval \<Rightarrow> jsstring"
  percentOf :: "nat \<Rightarrow> nat \<Rightarrow> rat"
  toFixed1 :: "rat \<Rightarrow> jsstring"
  toLowerCase :: "jsstring \<Rightarrow> jsstring"

text \<open>A date-only form is read first, as UTC midnight of its day.\<close>

definition Date_parse :: "jsengine \<Rightarrow> jsstring \<Rightarrow> int option" where
  "Date_parse eng s =
     (case readDateOnly s of
        Some (y, m, d) \<Rightarrow> Some (msPerDay * MakeDay y m d)
      | None \<Rightarrow> fallbackParse eng s)"

definition TimeClip :: "int \<Rightarrow> int option" where
  "TimeClip t = (if \<bar>t\<bar> > 8640000000000000 then None else Some t)"

text \<open>
  \<open>date.setHours(0, 0, 0, 0)\<close>: the time value is taken to local time with the offset
  at that instant, cut down to the start of its day, and taken back to UTC with the
  offset at that local time.
\<close>

definition setHours0 :: "jsengine \<Rightarrow> int option \<Rightarrow> int option" where
  "setHours0 eng date =
     (case date of
        None \<Rightarrow> None
      | Some t \<Rightarrow>
          let localTime = t + localTZA eng t True;
              midnight = (localTime div msPerDay) * msPerDay
          in TimeClip (midnight - localTZA eng midnight False))"

text \<open>\<open>a < b\<close> on two dates compares the time values, and is false when one is NaN.\<close>

fun Date_lt :: "int option \<Rightarrow> int option \<Rightarrow> bool" where
  "Date_lt (Some a) (Some b) = (a < b)"
| "Date_lt a b = False"

section \<open>The response normalizer of the generate-todo route\<close>

abbreviation "k_title \<equiv> ascii ''title''"
abbreviation "k_description \<equiv> ascii ''description''"
abbreviation "k_due_date \<equiv> ascii ''due_date''"
abbreviation "k_due_time \<equiv> ascii ''due_time''"
abbreviation "k_priority \<equiv> ascii ''priority''"
abbreviation "k_category \<equiv> ascii ''category''"

text \<open>The default title, the three code units U+D560 U+0020 U+C77C.\<close>

definition defaultTitle :: jsstring where
  "defaultTitle = [0xD560, 0x20, 0xC77C]"

definition titleStep :: "jsobject \<Rightarrow> jserror + jsobject" where
  "titleStep result =
     (if \<not> truthy (getProp result k_title) \<or> typeof (getProp result k_title) \<noteq> TString
      then Inr (setProp result k_title (JString defaultTitle))
      else andThen (asString (getProp result k_title)) (\<lambda>s.
        let t0 = trim s;
            t1 = (if length t0 > 100 then take 97 t0 @ ascii ''...'' else t0);
            t2 = (if length t1 < 1 then defaultTitle else t1)
        in Inr (setProp result k_title (JString t2))))"

text \<open>The description and the category are treated alike.\<close>

definition textStep :: "jsstring \<Rightarrow> jsobject \<Rightarrow> jserror + jsobject" where
  "textStep k result =
     (if truthy (getProp result k) \<and> typeof (getProp result k) = TString
      then andThen (asString (getProp result k)) (\<lambda>s.
        let t = trim s
        in Inr (setProp result k (if length t = 0 then JNull else JString t)))
      else Inr (setProp result k JNull))"

text \<open>
  Nothing in the \<open>try\<close> block of the due-date check can raise, so its \<open>catch\<close> branch
  is never taken. The past-date test comes first; the format is tested only on a date
  that is not in the past.
\<close>

definition dueDateStep :: "jsengine \<Rightarrow> jsstring \<Rightarrow> jsobject \<Rightarrow> jserror + jsobject" where
  "dueDateStep eng currentDate result =
     (if truthy (getProp result k_due_date) \<and> typeof (getProp result k_due_date) = TString
      then andThen (asString (getProp result k_due_date)) (\<lambda>s.
        let dueDate = setHours0 eng (Date_parse eng s);
            today = setHours0 eng (Date_parse eng currentDate)
        in if Date_lt dueDate today
           then Inr (setProp result k_due_date (JString currentDate))
           else if \<not> dateRegex_test s
           then Inr (setProp result k_due_date JNull)
           else Inr result)
      else Inr (setProp result k_due_date JNull))"

definition dueTimeStep :: "jsobject \<Rightarrow> jserror + jsobject" where
  "dueTimeStep result =
     (if truthy (getProp result k_due_time) \<and> typeof (getProp result k_due_time) = TString
      then andThen (asString (getProp result k_due_time)) (\<lambda>s.
        if \<not> timeRegex_test s
        then Inr (setProp result k_due_time JNull)
        else Inr result)
      else Inr (setProp result k_due_time JNull))"

definition priorities :: "jsval list" where
  "priorities = [JString (ascii ''high''), JString (ascii ''medium''), JString (ascii ''low'')]"

definition priorityStep :: "jsobject \<Rightarrow> jserror + jsobject" where
  "priorityStep result =
     (if \<not> truthy (getProp result k_priority) \<or> getProp result k_priority \<notin> set priorities
      then Inr (setProp result k_priority (JString (ascii ''medium'')))
      else Inr result)"

definition postprocessResult :: "jsengine \<Rightarrow> jsval \<Rightarrow> jsstring \<Rightarrow> jserror + jsobject" where
  "postprocessResult eng data currentDate =
     andThen (titleStep (spread data)) (\<lambda>r1.
     andThen (textStep k_description r1) (\<lambda>r2.
     andThen (dueDateStep eng currentDate r2) (\<lambda>r3.
     andThen (dueTimeStep r3) (\<lambda>r4.
     andThen (priorityStep r4) (\<lambda>r5.
     textStep k_category r5)))))"

section \<open>Predicates used to state the properties of the normalizer\<close>

text \<open>
  What the properties below say about a field of the returned object: a title, a value
  that is \<open>null\<close> or a string with a given property, a trimmed non-empty text.
  \<open>isPast\<close> is the past-date test of the normalizer, \<open>normTime\<close> and \<open>normDate\<close>
  are the outcomes of its time and date checks, \<open>resultProp\<close> reads a property of the
  returned object, \<open>dateBefore\<close> orders calendar dates, and \<open>utcEngine\<close> is an engine
  in the UTC zone that stands in for a real one in the examples: its parser accepts the
  date-only forms and nothing else, it reads a number from a string of decimal digits,
  computes percentages exactly and lowers ASCII letters. The examples evaluated on it
  stay within these cases.
\<close>

fun isTitle :: "jsval \<Rightarrow> bool" where
  "isTitle (JString s) = (s \<noteq> [] \<and> length s \<le> 100)"
| "isTitle v = False"

fun isNullOr :: "(jsstring \<Rightarrow> bool) \<Rightarrow> jsval \<Rightarrow> bool" where
  "isNullOr P JNull = True"
| "isNullOr P (JString s) = P s"
| "isNullOr P v = False"

definition trimmedText :: "jsstring \<Rightarrow> bool" where
  "trimmedText s = (s \<noteq> [] \<and> trim s = s)"

definition isPast :: "jsengine \<Rightarrow> jsstring \<Rightarrow> jsstring \<Rightarrow> bool" where
  "isPast eng currentDate s =
     Date_lt (setHours0 eng (Date_parse eng s)) (setHours0 eng (Date_parse eng currentDate))"

definition digitsToNumber :: "jsstring \<Rightarrow> jsnum" where
  "digitsToNumber s =
     (if s \<noteq> [] \<and> list_all isDigit s
      then Num (of_nat (foldl (\<lambda>n c. 10 * n + digitVal c) 0 s)) else NaN)"

definition fixed1 :: "rat \<Rightarrow> jsstring" where
  "fixed1 q =
     (let r = nat \<lfloor>10 * q + 1 / 2\<rfloor>
      in decimal (r div 10) @ ascii ''.'' @ decimal (r mod 10))"

definition asciiLower :: "jsstring \<Rightarrow> jsstring" where
  "asciiLower s = map (\<lambda>c. if 0x41 \<le> c \<and> c \<le> 0x5A then c + 0x20 else c) s"

definition utcEngine :: jsengine where
  "utcEngine =
     \<lparr>fallbackParse = (\<lambda>s. None), dateOfValue = (\<lambda>v. None), localTZA = (\<lambda>t isUTC. 0),
      stringToNumber = digitsToNumber, toPropertyKey = (\<lambda>v. ascii ''[object Object]''),
      percentOf = (\<lambda>c t. of_nat c / of_nat t * 100), toFixed1 = fixed1,
      toLowerCase = asciiLower\<rparr>"

text \<open>
  The same engine in the Atlantic/Azores zone around the end of its summer time, on 26
  October 2025 at 01:00 UTC (the time value 1761440400000): the offset is zero before
  that instant and minus one hour from it on. A local time of the hour that occurs
  twice is read with the offset before the change, as the standard says, so the local
  times change offset at the same time value.
\<close>

definition azoresEngine :: jsengine where
  "azoresEngine =
     utcEngine\<lparr>localTZA := (\<lambda>t isUTC. if t < 1761440400000 then 0 else - 3600000)\<rparr>"

fun normTime :: "jsval \<Rightarrow> jsval" where
  "normTime (JString s) = (if timeRegex_test s then JString s else JNull)"
| "normTime v = JNull"

fun normDate :: "jsengine \<Rightarrow> jsstring \<Rightarrow> jsval \<Rightarrow> jsval" where
  "normDate eng cd (JString s) =
     (if s \<noteq> [] \<and> isPast eng cd s then JString cd
      else if dateRegex_test s then JString s else JNull)"
| "normDate eng cd v = JNull"

definition resultProp :: "jserror + jsobject \<Rightarrow> jsstring \<Rightarrow> jsval option" where
  "resultProp res k = (case res of Inl e \<Rightarrow> None | Inr r \<Rightarrow> Some (getProp r k))"

definition dateBefore :: "int \<times> nat \<times> nat \<Rightarrow> int \<times> nat \<times> nat \<Rightarrow> bool" where
  "dateBefore a b =
     (case a of (y, m, d) \<Rightarrow> case b of (y', m', d') \<Rightarrow>
        y < y' \<or> (y = y' \<and> (m < m' \<or> (m = m' \<and> d < d'))))"

section \<open>Requests, responses and the host\<close>

text \<open>
  The user-facing messages of the two routes, by what they say; a response is a status
  code with an error message or with data.
\<close>

datatype message =
    InvalidJson | NotAString | EmptyInput | TooShort | TooLong | TooManySpecialChars
  | ApiKeyMissing | QuotaExceeded | AuthFailed | ModelUnavailable | ModelUnavailableNow
  | NetworkFailure | GenerationFailed | GenerationError
  | TodosRequired | PeriodRequired | AnalysisError

datatype payload = ErrorBody message | DataBody jsval

record response =
  status :: nat
  json :: payload

text \<open>
  Reading a property of a value, as in \<open>const { text } = body\<close> or \<open>t.completed\<close>, for
  the property names the routes read, none of which is inherited from a prototype:
  \<open>null\<close> and \<open>undefined\<close> have no properties and the read raises a TypeError; an
  array or a string has its indices and its length; a number or a boolean has none.
\<close>

fun nullish :: "jsval \<Rightarrow> bool" where
  "nullish JUndefined = True"
| "nullish JNull = True"
| "nullish v = False"

fun field :: "jsval \<Rightarrow> jsstring \<Rightarrow> jsval" where
  "field (JObject ps) k = getProp ps k"
| "field (JArray xs) k =
     (if k = ascii ''length'' then JNumber (Num (of_nat (length xs)))
      else getProp (spread (JArray xs)) k)"
| "field (JString s) k =
     (if k = ascii ''length'' then JNumber (Num (of_nat (length s)))
      else getProp (spread (JString s)) k)"
| "field v k = JUndefined"

definition propertyOf :: "jsval \<Rightarrow> jsstring \<Rightarrow> jserror + jsval" where
  "propertyOf v k = (if nullish v then Inl TypeError else Inr (field v k))"

text \<open>\<open>s.includes(sub)\<close>\<close>

fun str_includes :: "jsstring \<Rightarrow> jsstring \<Rightarrow> bool" where
  "str_includes [] sub = (sub = [])"
| "str_includes (c # cs) sub = (take (length sub) (c # cs) = sub \<or> str_includes cs sub)"

text \<open>
  An error that is thrown is known to the routes by its \<open>message\<close>, a string or
  nothing. \<open>error.message?.toLowerCase() || ""\<close>:
\<close>

definition lowerMessage :: "jsengine \<Rightarrow> jsstring option \<Rightarrow> jsstring" where
  "lowerMessage eng msg = (case msg of None \<Rightarrow> [] | Some m \<Rightarrow> toLowerCase eng m)"

definition isQuotaError :: "jsstring \<Rightarrow> bool" where
  "isQuotaError m =
     (str_includes m (ascii ''quota'') \<or> str_includes m (ascii ''rate limit'')
      \<or> str_includes m (ascii ''429'') \<or> str_includes m (ascii ''resource exhausted''))"

definition isAuthError :: "jsstring \<Rightarrow> bool" where
  "isAuthError m =
     (str_includes m (ascii ''api key'') \<or> str_includes m (ascii ''api_key'')
      \<or> str_includes m (ascii ''authentication''))"

definition isModelError :: "jsstring \<Rightarrow> bool" where
  "isModelError m = (str_includes m (ascii ''model'') \<or> str_includes m (ascii ''not found''))"

definition isNetworkError :: "jsstring \<Rightarrow> bool" where
  "isNetworkError m =
     (str_includes m (ascii ''network'') \<or> str_includes m (ascii ''timeout'')
      \<or> str_includes m (ascii ''fetch''))"

text \<open>The \<open>catch\<close> block at the end of either route; they differ in the last message.\<close>

definition catchResponse :: "jsengine \<Rightarrow> message \<Rightarrow> jsstring option \<Rightarrow> response" where
  "catchResponse eng fallback msg =
     (let errorMessage = lowerMessage eng msg
      in if isAuthError errorMessage then \<lparr>status = 500, json = ErrorBody AuthFailed\<rparr>
         else if isQuotaError errorMessage then \<lparr>status = 429, json = ErrorBody QuotaExceeded\<rparr>
         else if isModelError errorMessage then \<lparr>status = 500, json = ErrorBody ModelUnavailableNow\<rparr>
         else if isNetworkError errorMessage then \<lparr>status = 500, json = ErrorBody NetworkFailure\<rparr>
         else \<lparr>status = 500, json = ErrorBody fallback\<rparr>)"

section \<open>The generate-todo route\<close>

record validation =
  isValid :: bool
  error :: "message option"

definition isWordChar :: "16 word \<Rightarrow> bool" where
  "isWordChar c =
     ((0x30 \<le> c \<and> c \<le> 0x39) \<or> (0x41 \<le> c \<and> c \<le> 0x5A) \<or> c = 0x5F
      \<or> (0x61 \<le> c \<and> c \<le> 0x7A))"

text \<open>
  The class of a special character, \<^verbatim>\<open>[^\w\s\uAC00-\uD7A3]\<close>: a code unit that is neither a
  word character nor white space nor a Hangul syllable.
\<close>

definition isSpecialChar :: "16 word \<Rightarrow> bool" where
  "isSpecialChar c = (\<not> isWordChar c \<and> \<not> isWhiteSpace c \<and> \<not> (0xAC00 \<le> c \<and> c \<le> 0xD7A3))"

definition validateInput :: "jsstring \<Rightarrow> validation" where
  "validateInput text =
     (if text = [] \<or> length (trim text) = 0
      then \<lparr>isValid = False, error = Some EmptyInput\<rparr>
      else if length (trim text) < 2
      then \<lparr>isValid = False, error = Some TooShort\<rparr>
      else if length text > 500
      then \<lparr>isValid = False, error = Some TooLong\<rparr>
      else let specialCharCount = length (filter isSpecialChar text)
           in if 2 * specialCharCount > length text
              then \<lparr>isValid = False, error = Some TooManySpecialChars\<rparr>
              else \<lparr>isValid = True, error = None\<rparr>)"

text \<open>\<open>processed.replace(/\s+/g, " ")\<close>: every run of white space becomes one space.\<close>

function collapseSpaces :: "jsstring \<Rightarrow> jsstring" where
  "collapseSpaces [] = []"
| "collapseSpaces (c # cs) =
     (if isWhiteSpace c then 0x20 # collapseSpaces (dropWhile isWhiteSpace cs)
      else c # collapseSpaces cs)"
  by pat_completeness auto
termination
  by (relation "measure length") (auto simp: le_imp_less_Suc length_dropWhile_le)

definition preprocessInput :: "jsstring \<Rightarrow> jsstring" where
  "preprocessInput text = collapseSpaces (trim text)"

definition modelNames :: "jsstring list" where
  "modelNames = [ascii ''gemini-2.5-flash'', ascii ''gemini-1.5-flash'']"

text \<open>
  The host of one request: the engine, the API key of the environment and the message
  of the TypeError that the engine raises; for the generate-todo route also the
  current date and time as the route renders them (\<open>currentDate\<close>, \<open>currentTime\<close>),
  and the external model. The prompt is a fixed
  template around the processed text, the current date and the current time, so a
  call of the model is given by the model name and these three; it returns the object
  or throws an error with a message.
\<close>

record host =
  engine :: jsengine
  apiKey :: "jsstring option"
  typeErrorMessage :: "jsstring option"

record genHost = host +
  dateNow :: jsstring
  timeNow :: jsstring
  generateObject :: "jsstring \<Rightarrow> jsstring \<Rightarrow> jsstring \<Rightarrow> jsstring \<Rightarrow> jsstring option + jsval"

text \<open>
  The loop over the model names. Its state is \<open>object\<close> and \<open>lastError\<close>; the model
  names that were called are returned with it, in order. Every error is caught, kept
  as \<open>lastError\<close>, and the loop continues with the next name.
\<close>

fun tryModels ::
  "genHost \<Rightarrow> jsstring \<Rightarrow> jsstring list \<Rightarrow> jsstring option option
     \<Rightarrow> (jsval \<times> jsstring option option) \<times> jsstring list" where
  "tryModels h processedText [] lastError = ((JNull, lastError), [])"
| "tryModels h processedText (modelName # rest) lastError =
     (case generateObject h modelName processedText (dateNow h) (timeNow h) of
        Inr object \<Rightarrow> ((object, lastError), [modelName])
      | Inl modelError \<Rightarrow>
          (case tryModels h processedText rest (Some modelError) of
             (r, called) \<Rightarrow> (r, modelName # called)))"

text \<open>The response when the loop ends without an object.\<close>

definition isModelErrorExhausted :: "jsstring \<Rightarrow> bool" where
  "isModelErrorExhausted m =
     (str_includes m (ascii ''model'') \<or> str_includes m (ascii ''not found'')
      \<or> str_includes m (ascii ''invalid model'') \<or> str_includes m (ascii ''model not found'')
      \<or> str_includes m (ascii ''404''))"

definition exhaustedResponse :: "jsengine \<Rightarrow> jsstring option option \<Rightarrow> response" where
  "exhaustedResponse eng lastError =
     (let errorMessage = lowerMessage eng (case lastError of None \<Rightarrow> None | Some e \<Rightarrow> e)
      in if isQuotaError errorMessage then \<lparr>status = 429, json = ErrorBody QuotaExceeded\<rparr>
         else if isAuthError errorMessage then \<lparr>status = 500, json = ErrorBody AuthFailed\<rparr>
         else if isModelErrorExhausted errorMessage
         then \<lparr>status = 500, json = ErrorBody ModelUnavailable\<rparr>
         else if isNetworkError errorMessage then \<lparr>status = 500, json = ErrorBody NetworkFailure\<rparr>
         else \<lparr>status = 500, json = ErrorBody GenerationFailed\<rparr>)"

text \<open>
  The route. The request is the outcome of \<open>request.json()\<close>: the parsed body, or the
  message of the error it throws. The result is the response and the model names
  called.
\<close>

definition POST_generate ::
  "genHost \<Rightarrow> jsstring option + jsval \<Rightarrow> response \<times> jsstring list" where
  "POST_generate h request =
     (case request of
        Inl parseError \<Rightarrow> (\<lparr>status = 400, json = ErrorBody InvalidJson\<rparr>, [])
      | Inr body \<Rightarrow>
        (case propertyOf body (ascii ''text'') of
           Inl e \<Rightarrow> (catchResponse (engine h) GenerationError (typeErrorMessage h), [])
         | Inr text \<Rightarrow>
           if typeof text \<noteq> TString
           then (\<lparr>status = 400, json = ErrorBody NotAString\<rparr>, [])
           else
           (case asString text of
              Inl e \<Rightarrow> (catchResponse (engine h) GenerationError (typeErrorMessage h), [])
            | Inr text \<Rightarrow>
              let validation = validateInput text
              in if \<not> isValid validation
                 then (\<lparr>status = 400,
                        json = ErrorBody (case error validation of Some m \<Rightarrow> m | None \<Rightarrow> EmptyInput)\<rparr>, [])
                 else
                 let processedText = preprocessInput text
                 in if apiKey h = None \<or> apiKey h = Some []
                    then (\<lparr>status = 500, json = ErrorBody ApiKeyMissing\<rparr>, [])
                    else
                    (case tryModels h processedText modelNames None of
                       ((object, lastError), called) \<Rightarrow>
                         if \<not> truthy object
                         then (exhaustedResponse (engine h) lastError, called)
                         else
                         (case postprocessResult (engine h) object (dateNow h) of
                            Inl e \<Rightarrow>
                              (catchResponse (engine h) GenerationError (typeErrorMessage h), called)
                          | Inr processedResult \<Rightarrow>
                              (\<lparr>status = 200, json = DataBody (JObject processedResult)\<rparr>,
                               called))))))"


section \<open>The analyze-todos route\<close>

text \<open>
  The tasks are the elements of the \<open>todos\<close> array of the request, values of any kind
  whose properties the route reads. \<open>new Date(v)\<close> parses a string and asks the engine
  for any other value.
\<close>

abbreviation "k_completed \<equiv> ascii ''completed''"
abbreviation "k_created_date \<equiv> ascii ''created_date''"

fun Date_new :: "jsengine \<Rightarrow> jsval \<Rightarrow> int option" where
  "Date_new eng (JString s) = Date_parse eng s"
| "Date_new eng v = dateOfValue eng v"

text \<open>\<open>a <= b\<close> on two dates; \<open>a >= b\<close> is \<open>b <= a\<close>.\<close>

fun Date_le :: "int option \<Rightarrow> int option \<Rightarrow> bool" where
  "Date_le (Some a) (Some b) = (a \<le> b)"
| "Date_le a b = False"

subsection \<open>Completion rates\<close>

text \<open>
  \<open>((c / t) * 100).toFixed(1)\<close>. A division by zero does not raise in JavaScript, it
  gives NaN or an infinity; the model records it as \<open>DivisionByZero\<close>, so that its
  absence can be stated.
\<close>

datatype arith = DivisionByZero

definition percentage :: "jsengine \<Rightarrow> nat \<Rightarrow> nat \<Rightarrow> arith + jsstring" where
  "percentage eng c t =
     (if t = 0 then Inl DivisionByZero else Inr (toFixed1 eng (percentOf eng c t)))"

text \<open>\<open>t > 0 ? ((c / t) * 100).toFixed(1) : "0"\<close>\<close>

definition guardedRate :: "jsengine \<Rightarrow> nat \<Rightarrow> nat \<Rightarrow> arith + jsstring" where
  "guardedRate eng c t = (if t > 0 then percentage eng c t else Inr (ascii ''0''))"

subsection \<open>Totals, priorities and due dates\<close>

record statistics =
  st_total :: nat
  st_completed :: nat
  st_completionRate :: "arith + jsstring"
  st_highPriorityTotal :: nat
  st_highPriorityCompleted :: nat
  st_highPriorityRate :: "arith + jsstring"
  st_mediumPriorityTotal :: nat
  st_mediumPriorityCompleted :: nat
  st_mediumPriorityRate :: "arith + jsstring"
  st_lowPriorityTotal :: nat
  st_lowPriorityCompleted :: nat
  st_lowPriorityRate :: "arith + jsstring"
  st_highPriorityPending :: nat
  st_mediumPriorityPending :: nat
  st_lowPriorityPending :: nat
  st_withDueDate :: nat
  st_completedOnTime :: nat
  st_onTimeRate :: "arith + jsstring"
  st_overdue :: nat
  st_upcomingDeadlines :: nat

definition hasPriority :: "jsstring \<Rightarrow> jsval \<Rightarrow> bool" where
  "hasPriority p t = (field t k_priority = JString p)"

definition isCompleted :: "jsval \<Rightarrow> bool" where
  "isCompleted t = truthy (field t k_completed)"

definition isCompletedOnTime :: "jsengine \<Rightarrow> jsval \<Rightarrow> bool" where
  "isCompletedOnTime eng t =
     (if \<not> truthy (field t k_due_date) \<or> \<not> truthy (field t k_completed) then False
      else let dueDate = Date_new eng (field t k_due_date);
               completedDate = Date_new eng (field t k_created_date)
           in Date_le completedDate dueDate)"

text \<open>The two filters that read the clock; \<open>now\<close> is what \<open>new Date()\<close> gives.\<close>

definition isOverdue :: "jsengine \<Rightarrow> int \<Rightarrow> jsval \<Rightarrow> bool" where
  "isOverdue eng now t =
     (if \<not> truthy (field t k_due_date) \<or> truthy (field t k_completed) then False
      else Date_lt (Date_new eng (field t k_due_date)) (Some now))"

text \<open>
  \<open>tomorrow.setDate(tomorrow.getDate() + 1)\<close> on a copy of \<open>now\<close>: one day later in
  local time.
\<close>

definition tomorrowOf :: "jsengine \<Rightarrow> int \<Rightarrow> int option" where
  "tomorrowOf eng now =
     (let localTime = now + localTZA eng now True + msPerDay
      in TimeClip (localTime - localTZA eng localTime False))"

definition isUpcoming :: "jsengine \<Rightarrow> int \<Rightarrow> jsval \<Rightarrow> bool" where
  "isUpcoming eng now t =
     (if \<not> truthy (field t k_due_date) \<or> truthy (field t k_completed) then False
      else let dueDate = Date_new eng (field t k_due_date);
               tomorrow = tomorrowOf eng now
           in Date_le (Some now) dueDate \<and> Date_le dueDate tomorrow)"

definition basicStatistics :: "jsengine \<Rightarrow> int \<Rightarrow> jsval list \<Rightarrow> statistics" where
  "basicStatistics eng now todos =
     (let total = length todos;
          completed = length (filter isCompleted todos);
          highPriorityTotal = length (filter (hasPriority (ascii ''high'')) todos);
          highPriorityCompleted =
            length (filter (\<lambda>t. hasPriority (ascii ''high'') t \<and> isCompleted t) todos);
          mediumPriorityTotal = length (filter (hasPriority (ascii ''medium'')) todos);
          mediumPriorityCompleted =
            length (filter (\<lambda>t. hasPriority (ascii ''medium'') t \<and> isCompleted t) todos);
          lowPriorityTotal = length (filter (hasPriority (ascii ''low'')) todos);
          lowPriorityCompleted =
            length (filter (\<lambda>t. hasPriority (ascii ''low'') t \<and> isCompleted t) todos);
          withDueDate = length (filter (\<lambda>t. truthy (field t k_due_date)) todos);
          completedOnTime = length (filter (isCompletedOnTime eng) todos)
      in \<lparr>st_total = total,
          st_completed = completed,
          st_completionRate = guardedRate eng completed total,
          st_highPriorityTotal = highPriorityTotal,
          st_highPriorityCompleted = highPriorityCompleted,
          st_highPriorityRate = guardedRate eng highPriorityCompleted highPriorityTotal,
          st_mediumPriorityTotal = mediumPriorityTotal,
          st_mediumPriorityCompleted = mediumPriorityCompleted,
          st_mediumPriorityRate = guardedRate eng mediumPriorityCompleted mediumPriorityTotal,
          st_lowPriorityTotal = lowPriorityTotal,
          st_lowPriorityCompleted = lowPriorityCompleted,
          st_lowPriorityRate = guardedRate eng lowPriorityCompleted lowPriorityTotal,
          st_highPriorityPending =
            length (filter (\<lambda>t. hasPriority (ascii ''high'') t \<and> \<not> isCompleted t) todos),
          st_mediumPriorityPending =
            length (filter (\<lambda>t. hasPriority (ascii ''medium'') t \<and> \<not> isCompleted t) todos),
          st_lowPriorityPending =
            length (filter (\<lambda>t. hasPriority (ascii ''low'') t \<and> \<not> isCompleted t) todos),
          st_withDueDate = withDueDate,
          st_completedOnTime = completedOnTime,
          st_onTimeRate = guardedRate eng completedOnTime withDueDate,
          st_overdue = length (filter (isOverdue eng now) todos),
          st_upcomingDeadlines = length (filter (isUpcoming eng now) todos)\<rparr>)"

subsection \<open>Time slots\<close>

text \<open>A pair of counters \<open>{ total, completed }\<close>, and \<open>total++\<close> with the conditional \<open>completed++\<close>.\<close>

type_synonym tally = "nat \<times> nat"

definition bump :: "bool \<Rightarrow> tally \<Rightarrow> tally" where
  "bump isDone cnt = (case cnt of (t, c) \<Rightarrow> (t + 1, if isDone then c + 1 else c))"

definition bumpAt :: "'k \<Rightarrow> bool \<Rightarrow> ('k \<times> tally) list \<Rightarrow> ('k \<times> tally) list" where
  "bumpAt k isDone table = map (\<lambda>(k', cnt). if k' = k then (k', bump isDone cnt) else (k', cnt)) table"

datatype slot = Morning | Afternoon | Evening | Night

definition timeSlots0 :: "(slot \<times> tally) list" where
  "timeSlots0 = [(Morning, (0, 0)), (Afternoon, (0, 0)), (Evening, (0, 0)), (Night, (0, 0))]"

text \<open>Comparing a number with a constant; every comparison with NaN is false.\<close>

fun num_ge :: "jsnum \<Rightarrow> rat \<Rightarrow> bool" where
  "num_ge (Num q) r = (q \<ge> r)"
| "num_ge PosInfinity r = True"
| "num_ge n r = False"

fun num_lt :: "jsnum \<Rightarrow> rat \<Rightarrow> bool" where
  "num_lt (Num q) r = (q < r)"
| "num_lt NegInfinity r = True"
| "num_lt n r = False"

definition slotOf :: "jsnum \<Rightarrow> slot option" where
  "slotOf hours =
     (if num_ge hours 9 \<and> num_lt hours 12 then Some Morning
      else if num_ge hours 12 \<and> num_lt hours 18 then Some Afternoon
      else if num_ge hours 18 \<and> num_lt hours 21 then Some Evening
      else if num_ge hours 21 then Some Night
      else None)"

text \<open>\<open>const [hours] = s.split(":").map(Number)\<close>: the number read from the part before the first colon.\<close>

definition hoursOf :: "jsengine \<Rightarrow> jsstring \<Rightarrow> jsnum" where
  "hoursOf eng s = stringToNumber eng (takeWhile (\<lambda>c. c \<noteq> 0x3A) s)"

text \<open>One round of the loop; \<open>split\<close> is a method of strings only.\<close>

definition timeSlotStep :: "jsengine \<Rightarrow> jsval \<Rightarrow> (slot \<times> tally) list \<Rightarrow> jserror + (slot \<times> tally) list" where
  "timeSlotStep eng todo timeSlots =
     (if truthy (field todo k_due_time)
      then andThen (asString (field todo k_due_time)) (\<lambda>s.
        case slotOf (hoursOf eng s) of
          None \<Rightarrow> Inr timeSlots
        | Some slot \<Rightarrow> Inr (bumpAt slot (truthy (field todo k_completed)) timeSlots))
      else Inr timeSlots)"

fun forEach :: "('a \<Rightarrow> 's \<Rightarrow> 'e + 's) \<Rightarrow> 'a list \<Rightarrow> 's \<Rightarrow> 'e + 's" where
  "forEach f [] s = Inr s"
| "forEach f (x # xs) s = andThen (f x s) (forEach f xs)"

definition timeSlotStats :: "jsengine \<Rightarrow> jsval list \<Rightarrow> jserror + (slot \<times> tally) list" where
  "timeSlotStats eng todos = forEach (timeSlotStep eng) todos timeSlots0"

subsection \<open>Days of the week\<close>

datatype weekday = Sunday | Monday | Tuesday | Wednesday | Thursday | Friday | Saturday

definition dayNames :: "weekday list" where
  "dayNames = [Sunday, Monday, Tuesday, Wednesday, Thursday, Friday, Saturday]"

definition dayOfWeekStats0 :: "(weekday \<times> tally) list" where
  "dayOfWeekStats0 =
     [(Monday, (0, 0)), (Tuesday, (0, 0)), (Wednesday, (0, 0)), (Thursday, (0, 0)),
      (Friday, (0, 0)), (Saturday, (0, 0)), (Sunday, (0, 0))]"

text \<open>\<open>date.getDay()\<close>: the day of the week in local time, 0 for Sunday; NaN for an invalid date.\<close>

definition getDay :: "jsengine \<Rightarrow> int option \<Rightarrow> nat option" where
  "getDay eng date =
     (case date of
        None \<Rightarrow> None
      | Some t \<Rightarrow> Some (nat (((t + localTZA eng t True) div msPerDay + 4) mod 7)))"

text \<open>
  \<open>dayNames[NaN]\<close> is \<open>undefined\<close>, and no day of the table has that name: the task is
  skipped.
\<close>

definition dayOfWeekStep :: "jsengine \<Rightarrow> jsval \<Rightarrow> (weekday \<times> tally) list \<Rightarrow> (weekday \<times> tally) list" where
  "dayOfWeekStep eng todo dayOfWeekStats =
     (if truthy (field todo k_due_date)
      then (case getDay eng (Date_new eng (field todo k_due_date)) of
              None \<Rightarrow> dayOfWeekStats
            | Some i \<Rightarrow> bumpAt (dayNames ! i) (truthy (field todo k_completed)) dayOfWeekStats)
      else dayOfWeekStats)"

definition dayOfWeekStats :: "jsengine \<Rightarrow> jsval list \<Rightarrow> (weekday \<times> tally) list" where
  "dayOfWeekStats eng todos = foldl (\<lambda>table todo. dayOfWeekStep eng todo table) dayOfWeekStats0 todos"

subsection \<open>Categories\<close>

text \<open>The default category, the two code units U+AE30 U+D0C0.\<close>

definition otherCategory :: jsstring where
  "otherCategory = [0xAE30, 0xD0C0]"

text \<open>
  The table of categories starts as the empty object \<open>{}\<close>, which inherits the
  properties of \<open>Object.prototype\<close>. For a category with one of their names,
  \<open>categoryStats[category]\<close> is the inherited value, which is truthy: no entry is
  created, and the counters that are incremented are properties of that value.
\<close>

definition inheritedKeys :: "jsstring list" where
  "inheritedKeys =
     [ascii ''constructor'', ascii ''__defineGetter__'', ascii ''__defineSetter__'',
      ascii ''hasOwnProperty'', ascii ''__lookupGetter__'', ascii ''__lookupSetter__'',
      ascii ''isPrototypeOf'', ascii ''propertyIsEnumerable'', ascii ''toString'',
      ascii ''valueOf'', ascii ''__proto__'', ascii ''toLocaleString'']"

definition categoryKey :: "jsengine \<Rightarrow> jsval \<Rightarrow> jsstring" where
  "categoryKey eng todo =
     (let category = (if truthy (field todo k_category) then field todo k_category
                      else JString otherCategory)
      in case category of JString s \<Rightarrow> s | v \<Rightarrow> toPropertyKey eng v)"

definition categoryStep :: "jsengine \<Rightarrow> jsval \<Rightarrow> (jsstring \<times> tally) list \<Rightarrow> (jsstring \<times> tally) list" where
  "categoryStep eng todo categoryStats =
     (let category = categoryKey eng todo
      in if category \<in> set inheritedKeys then categoryStats
         else let created = (if map_of categoryStats category = None
                             then categoryStats @ [(category, (0, 0))] else categoryStats)
              in bumpAt category (truthy (field todo k_completed)) created)"

definition categoryStats :: "jsengine \<Rightarrow> jsval list \<Rightarrow> (jsstring \<times> tally) list" where
  "categoryStats eng todos = foldl (\<lambda>table todo. categoryStep eng todo table) [] todos"

text \<open>
  \<open>Object.entries\<close> lists the properties whose names are array indices first, in
  ascending order, and then the others in the order of their creation.
\<close>

definition isArrayIndex :: "jsstring \<Rightarrow> bool" where
  "isArrayIndex s =
     (s \<noteq> [] \<and> list_all isDigit s \<and> (length s = 1 \<or> hd s \<noteq> 0x30)
      \<and> int (foldl (\<lambda>n c. 10 * n + digitVal c) 0 s) < 4294967295)"

definition objectEntries :: "(jsstring \<times> 'a) list \<Rightarrow> (jsstring \<times> 'a) list" where
  "objectEntries table =
     sort_key (\<lambda>(k, v). foldl (\<lambda>n c. 10 * n + digitVal c) 0 k) (filter (\<lambda>(k, v). isArrayIndex k) table)
     @ filter (\<lambda>(k, v). \<not> isArrayIndex k) table"

subsection \<open>The lines of the report and the most productive entries\<close>

definition slotLines :: "jsengine \<Rightarrow> ('k \<times> tally) list \<Rightarrow> ('k \<times> nat \<times> nat \<times> (arith + jsstring)) list" where
  "slotLines eng table = map (\<lambda>(k, (t, c)). (k, t, c, guardedRate eng c t)) table"

definition dayLines :: "jsengine \<Rightarrow> ('k \<times> tally) list \<Rightarrow> ('k \<times> nat \<times> nat \<times> (arith + jsstring)) list" where
  "dayLines eng table =
     map (\<lambda>(k, (t, c)). (k, t, c, percentage eng c t)) (filter (\<lambda>(k, (t, c)). t > 0) table)"

definition categoryLines :: "jsengine \<Rightarrow> (jsstring \<times> tally) list \<Rightarrow> (jsstring \<times> nat \<times> nat \<times> (arith + jsstring)) list" where
  "categoryLines eng table =
     map (\<lambda>(k, (t, c)). (k, t, c, percentage eng c t)) (objectEntries table)"

text \<open>
  The rate that the comparison function of \<open>sort\<close> computes for an entry, and the
  rates of a list of entries, which fail when one of them divides by zero.
\<close>

definition rateOf :: "jsengine \<Rightarrow> tally \<Rightarrow> arith + rat" where
  "rateOf eng cnt = (case cnt of (t, c) \<Rightarrow> if t = 0 then Inl DivisionByZero else Inr (percentOf eng c t))"

fun collect :: "('e + 'a) list \<Rightarrow> 'e + 'a list" where
  "collect [] = Inr []"
| "collect (x # xs) = andThen x (\<lambda>v. andThen (collect xs) (\<lambda>vs. Inr (v # vs)))"

text \<open>
  The entries with a positive total, sorted by descending rate; \<open>sort\<close> is stable. The
  first one, if any, with its rate as it is displayed.
\<close>

definition mostProductive :: "jsengine \<Rightarrow> ('k \<times> tally) list \<Rightarrow> arith + ('k \<times> jsstring) option" where
  "mostProductive eng table =
     (let entries = filter (\<lambda>(k, (t, c)). t > 0) table
      in andThen (collect (map (\<lambda>(k, cnt). rateOf eng cnt) entries)) (\<lambda>rates.
           case sort_key (\<lambda>(r, e). - r) (zip rates entries) of
             [] \<Rightarrow> Inr None
           | (r, (k, (t, c))) # rest \<Rightarrow>
               andThen (percentage eng c t) (\<lambda>shown. Inr (Some (k, shown)))))"

definition mostConcentrated :: "('k \<times> tally) list \<Rightarrow> ('k \<times> nat) option" where
  "mostConcentrated table =
     (case sort_key (\<lambda>(k, (t, c)). - int t) table of
        [] \<Rightarrow> None
      | (k, (t, c)) # rest \<Rightarrow> Some (k, t))"

subsection \<open>The report and the route\<close>

record report =
  stats :: statistics
  timeSlotLines :: "(slot \<times> nat \<times> nat \<times> (arith + jsstring)) list"
  mostProductiveTimeSlot :: "arith + (slot \<times> jsstring) option"
  mostConcentratedTimeSlot :: "(slot \<times> nat) option"
  dayOfWeekLines :: "(weekday \<times> nat \<times> nat \<times> (arith + jsstring)) list"
  mostProductiveDay :: "arith + (weekday \<times> jsstring) option"
  categoryStatLines :: "(jsstring \<times> nat \<times> nat \<times> (arith + jsstring)) list"

definition buildReport :: "jsengine \<Rightarrow> int \<Rightarrow> jsval list \<Rightarrow> jserror + report" where
  "buildReport eng now todos =
     andThen (timeSlotStats eng todos) (\<lambda>timeSlots.
       Inr \<lparr>stats = basicStatistics eng now todos,
            timeSlotLines = slotLines eng timeSlots,
            mostProductiveTimeSlot = mostProductive eng timeSlots,
            mostConcentratedTimeSlot = mostConcentrated timeSlots,
            dayOfWeekLines = dayLines eng (dayOfWeekStats eng todos),
            mostProductiveDay = mostProductive eng (dayOfWeekStats eng todos),
            categoryStatLines = categoryLines eng (categoryStats eng todos)\<rparr>)"

fun isArray :: "jsval \<Rightarrow> bool" where
  "isArray (JArray xs) = True"
| "isArray v = False"

fun elements :: "jsval \<Rightarrow> jsval list" where
  "elements (JArray xs) = xs"
| "elements v = []"

definition periods :: "jsval list" where
  "periods = [JString (ascii ''today''), JString (ascii ''week'')]"

text \<open>
  The host of one request to the analyze-todos route. The clock is read several times
  while the request is served; the model takes one reading, \<open>clock\<close>, for all of them.
  The prompt is built from the period, the report, the task list and the clock, so
  these are what a call of the model is given.
\<close>

record anaHost = host +
  clock :: int
  generateAnalysis :: "jsval \<Rightarrow> report \<Rightarrow> jsval list \<Rightarrow> int \<Rightarrow> jsstring option + jsval"

text \<open>
  The route. The first statement that touches the tasks reads a property of each of
  them in turn, and raises a TypeError at one that is \<open>null\<close>; nothing has been sent
  by then, and the error is caught by the \<open>catch\<close> block like every other. The result
  is the response and the number of calls of the model.
\<close>

definition POST_analyze :: "anaHost \<Rightarrow> jsstring option + jsval \<Rightarrow> response \<times> nat" where
  "POST_analyze h request =
     (case request of
        Inl parseError \<Rightarrow> (catchResponse (engine h) AnalysisError parseError, 0)
      | Inr reqBody \<Rightarrow>
        (case propertyOf reqBody (ascii ''todos'') of
           Inl e \<Rightarrow> (catchResponse (engine h) AnalysisError (typeErrorMessage h), 0)
         | Inr todos \<Rightarrow>
        (case propertyOf reqBody (ascii ''period'') of
           Inl e \<Rightarrow> (catchResponse (engine h) AnalysisError (typeErrorMessage h), 0)
         | Inr period \<Rightarrow>
           if \<not> truthy todos \<or> \<not> isArray todos
           then (\<lparr>status = 400, json = ErrorBody TodosRequired\<rparr>, 0)
           else if \<not> truthy period \<or> period \<notin> set periods
           then (\<lparr>status = 400, json = ErrorBody PeriodRequired\<rparr>, 0)
           else if apiKey h = None \<or> apiKey h = Some []
           then (\<lparr>status = 500, json = ErrorBody ApiKeyMissing\<rparr>, 0)
           else if list_ex nullish (elements todos)
           then (catchResponse (engine h) AnalysisError (typeErrorMessage h), 0)
           else
           (case buildReport (engine h) (clock h) (elements todos) of
              Inl e \<Rightarrow> (catchResponse (engine h) AnalysisError (typeErrorMessage h), 0)
            | Inr rep \<Rightarrow>
              (case generateAnalysis h period rep (elements todos) (clock h) of
                 Inl e \<Rightarrow> (catchResponse (engine h) AnalysisError e, 1)
               | Inr object \<Rightarrow> (\<lparr>status = 200, json = DataBody object\<rparr>, 1))))))"


section \<open>Predicates used to state the properties of the analyze-todos route\<close>

text \<open>
  A rate is in order when it was computed without a division by zero and is the string
  \<open>0\<close> when its denominator is zero.
\<close>

definition rateOk :: "nat \<Rightarrow> arith + jsstring \<Rightarrow> bool" where
  "rateOk t r = (case r of Inl e \<Rightarrow> False | Inr s \<Rightarrow> (t = 0 \<longrightarrow> s = ascii ''0''))"

text \<open>A table in which every entry has a positive total.\<close>

definition positive :: "('k \<times> tally) list \<Rightarrow> bool" where
  "positive table = list_all (\<lambda>(k, (t, c)). 0 < t) table"

text \<open>
  A task has a due time when the property is truthy; its hour is the number the loop
  reads from it. The sum of the totals of a table; the four slots in their order; the
  tasks that the loop counts.
\<close>

definition hasDueTime :: "jsval \<Rightarrow> bool" where
  "hasDueTime todo = truthy (field todo k_due_time)"

definition dueHour :: "jsengine \<Rightarrow> jsval \<Rightarrow> jsnum" where
  "dueHour eng todo = (case field todo k_due_time of JString s \<Rightarrow> hoursOf eng s | v \<Rightarrow> NaN)"

definition slotTotal :: "('k \<times> tally) list \<Rightarrow> nat" where
  "slotTotal table = sum_list (map (\<lambda>(k, (t, c)). t) table)"

definition slotTable :: "(slot \<times> tally) list \<Rightarrow> bool" where
  "slotTable table = (map fst table = [Morning, Afternoon, Evening, Night])"

definition counted :: "jsengine \<Rightarrow> jsval \<Rightarrow> bool" where
  "counted eng todo = (hasDueTime todo \<and> num_ge (dueHour eng todo) 9)"

text \<open>A report without the two counts that are taken against the clock.\<close>

definition forgetClock :: "report \<Rightarrow> report" where
  "forgetClock rep = rep\<lparr>stats := (stats rep)\<lparr>st_overdue := 0, st_upcomingDeadlines := 0\<rparr>\<rparr>"

section \<open>Example hosts\<close>

text \<open>
  A host of the generate-todo route whose first model call fails with a quota error
  and whose second call returns an object with the processed text as its title and a
  high priority.
\<close>

definition quotaHost :: genHost where
  "quotaHost =
     \<lparr>engine = utcEngine, apiKey = Some (ascii ''key''), typeErrorMessage = None,
      dateNow = ascii ''2025-06-10'', timeNow = ascii ''09:30'',
      generateObject = (\<lambda>modelName processedText date time.
        if modelName = ascii ''gemini-2.5-flash'' then Inl (Some (ascii ''Quota exceeded''))
        else Inr (JObject [(k_title, JString processedText),
                           (k_priority, JString (ascii ''high''))]))\<rparr>"


text \<open>
  A host of the analyze-todos route with an API key, whose model returns a summary;
  its clock reads midnight UTC of 10 June 2025. Two tasks, one due at 08:30 and one at
  14:00.
\<close>

definition okAnaHost :: anaHost where
  "okAnaHost =
     \<lparr>engine = utcEngine, apiKey = Some (ascii ''key''), typeErrorMessage = None,
      clock = 1749513600000,
      generateAnalysis = (\<lambda>period rep todos now.
        Inr (JObject [(ascii ''summary'', JString (ascii ''nothing to do''))]))\<rparr>"

definition earlyTask :: jsval where
  "earlyTask =
     JObject [(k_title, JString (ascii ''run'')), (k_completed, JBool False),
              (k_due_date, JString (ascii ''2025-06-10'')), (k_due_time, JString (ascii ''08:30''))]"

definition lateTask :: jsval where
  "lateTask =
     JObject [(k_title, JString (ascii ''review'')), (k_completed, JBool False),
              (k_due_time, JString (ascii ''14:00''))]"

section \<open>Properties of the response normalizer\<close>

lemma getProp_setProp: "getProp (setProp obj k v) k' = (if k' = k then v else getProp obj k')"
  by (simp add: getProp_def setProp_def update_conv)

lemma setProp_same: "getProp obj k = v \<Longrightarrow> v \<noteq> JUndefined \<Longrightarrow> setProp obj k v = obj"
  by (auto simp: getProp_def setProp_def split: option.splits intro: update_triv)

lemma trim_ends:
  assumes "trim s \<noteq> []"
  shows "\<not> isWhiteSpace (hd (trim s))" and "\<not> isWhiteSpace (last (trim s))"
proof -
  let ?ys = "dropWhile isWhiteSpace s"
  let ?zs = "dropWhile isWhiteSpace (rev ?ys)"
  from assms have zs: "?zs \<noteq> []" by (simp add: trim_def)
  have ys: "?ys \<noteq> []"
  proof
    assume "?ys = []"
    then have "?zs = []" by (simp del: dropWhile_eq_Nil_conv)
    with zs show False by simp
  qed
  have "\<not> isWhiteSpace (hd ?zs)" using zs by (rule hd_dropWhile)
  then show "\<not> isWhiteSpace (last (trim s))" using zs by (simp add: trim_def last_rev)
  have h: "\<not> isWhiteSpace (hd ?ys)" using ys by (rule hd_dropWhile)
  have "hd ?ys \<in> set (rev ?ys)" using ys by simp
  then have "last ?zs = last (rev ?ys)" using h by (rule dropWhile_last)
  then have "last ?zs = hd ?ys" using ys by (simp add: last_rev)
  then show "\<not> isWhiteSpace (hd (trim s))" using zs h by (simp add: trim_def hd_rev)
qed

lemma trim_fixed:
  assumes "x \<noteq> []" "\<not> isWhiteSpace (hd x)" "\<not> isWhiteSpace (last x)"
  shows "trim x = x"
proof -
  have a: "dropWhile isWhiteSpace x = x" using assms by (cases x) auto
  have b: "dropWhile isWhiteSpace (rev x) = rev x" using assms by (cases "rev x") (auto simp: hd_rev simp flip: hd_rev)
  show ?thesis by (simp add: trim_def a b)
qed

lemma trim_idem: "trim (trim s) = trim s"
proof (cases "trim s = []")
  case True
  then have "trim (trim s) = trim []" by simp
  also have "\<dots> = []" by (simp add: trim_def)
  finally show ?thesis using True by simp
next
  case False then show ?thesis by (intro trim_fixed trim_ends)
qed

lemma defaultTitle_trim: "trim defaultTitle = defaultTitle"
  by (rule trim_fixed) (simp_all add: defaultTitle_def isWhiteSpace_def)

lemma dots_title:
  assumes "trim s \<noteq> []"
  shows "trim (take 97 (trim s) @ ascii ''...'') = take 97 (trim s) @ ascii ''...''"
proof (rule trim_fixed)
  show "take 97 (trim s) @ ascii ''...'' \<noteq> []" by (simp add: ascii_def)
  have "hd (take 97 (trim s) @ ascii ''...'') = hd (trim s)" using assms by (cases "trim s") simp_all
  then show "\<not> isWhiteSpace (hd (take 97 (trim s) @ ascii ''...''))" using trim_ends(1)[OF assms] by simp
  show "\<not> isWhiteSpace (last (take 97 (trim s) @ ascii ''...''))" by (simp add: ascii_def isWhiteSpace_def)
qed

lemma defaultTitle_good:
  "defaultTitle \<noteq> [] \<and> length defaultTitle \<le> 100 \<and> trim defaultTitle = defaultTitle"
  using defaultTitle_trim by (simp add: defaultTitle_def)

lemma titleStep_default:
  "titleStep r = Inr (setProp r k_title (JString defaultTitle)) \<Longrightarrow>
   \<exists>t. titleStep r = Inr (setProp r k_title (JString t)) \<and> t \<noteq> [] \<and> length t \<le> 100 \<and> trim t = t"
  using defaultTitle_good by metis

lemma titleStep_shape:
  "\<exists>t. titleStep r = Inr (setProp r k_title (JString t)) \<and> t \<noteq> [] \<and> length t \<le> 100 \<and> trim t = t"
proof (cases "getProp r k_title")
  case (JString s)
  show ?thesis
  proof (cases "s = [] \<or> trim s = []")
    case True
    then have "titleStep r = Inr (setProp r k_title (JString defaultTitle))"
      using JString by (auto simp: titleStep_def andThen_def)
    then show ?thesis by (rule titleStep_default)
  next
    case nonempty: False
    show ?thesis
    proof (cases "length (trim s) > 100")
      case True
      let ?t = "take 97 (trim s) @ ascii ''...''"
      have "titleStep r = Inr (setProp r k_title (JString ?t))"
        using JString nonempty True by (simp add: titleStep_def andThen_def Let_def)
      moreover have "?t \<noteq> []" "length ?t \<le> 100" by (simp_all add: ascii_def)
      moreover have "trim ?t = ?t" using nonempty by (simp add: dots_title)
      ultimately show ?thesis by blast
    next
      case False
      have "titleStep r = Inr (setProp r k_title (JString (trim s)))"
        using JString nonempty False by (simp add: titleStep_def andThen_def Let_def)
      moreover have "length (trim s) \<le> 100" using False by simp
      ultimately show ?thesis using nonempty trim_idem by blast
    qed
  qed
qed (rule titleStep_default, simp add: titleStep_def)+

lemma titleStep_fixed:
  assumes "getProp r k_title = JString t" "t \<noteq> []" "length t \<le> 100" "trim t = t"
  shows "titleStep r = Inr r"
  using assms by (simp add: titleStep_def andThen_def Let_def setProp_same)

lemma textStep_null:
  "textStep k r = Inr (setProp r k JNull) \<Longrightarrow>
   \<exists>v. textStep k r = Inr (setProp r k v) \<and> isNullOr trimmedText v"
  by (rule exI[of _ JNull]) simp

lemma textStep_shape:
  "\<exists>v. textStep k r = Inr (setProp r k v) \<and> isNullOr trimmedText v"
proof (cases "getProp r k")
  case (JString s)
  show ?thesis
  proof (cases "s = [] \<or> trim s = []")
    case True
    then have "textStep k r = Inr (setProp r k JNull)"
      using JString by (auto simp: textStep_def andThen_def)
    then show ?thesis by (rule textStep_null)
  next
    case False
    then have "textStep k r = Inr (setProp r k (JString (trim s)))"
      using JString by (simp add: textStep_def andThen_def)
    moreover have "isNullOr trimmedText (JString (trim s))"
      using False by (simp add: trimmedText_def trim_idem)
    ultimately show ?thesis by blast
  qed
qed (rule textStep_null, simp add: textStep_def)+

lemma textStep_fixed:
  assumes "isNullOr trimmedText (getProp r k)"
  shows "textStep k r = Inr r"
  using assms
  by (cases "getProp r k") (auto simp: textStep_def andThen_def Let_def trimmedText_def setProp_same)

lemma Date_lt_irrefl: "\<not> Date_lt d d"
  by (cases d) simp_all

lemma dueDateStep_past:
  "getProp r k_due_date = JString s \<Longrightarrow> s \<noteq> [] \<Longrightarrow> isPast eng cd s \<Longrightarrow>
   dueDateStep eng cd r = Inr (setProp r k_due_date (JString cd))"
  by (simp add: dueDateStep_def andThen_def Let_def isPast_def)

lemma dueDateStep_kept:
  "getProp r k_due_date = JString s \<Longrightarrow> \<not> isPast eng cd s \<Longrightarrow> dateRegex_test s \<Longrightarrow>
   dueDateStep eng cd r = Inr r"
  by (cases "s = []") (simp_all add: dueDateStep_def andThen_def Let_def isPast_def)

lemma dueDateStep_malformed:
  "getProp r k_due_date = JString s \<Longrightarrow> \<not> isPast eng cd s \<Longrightarrow> \<not> dateRegex_test s \<Longrightarrow>
   dueDateStep eng cd r = Inr (setProp r k_due_date JNull)"
  by (simp add: dueDateStep_def andThen_def Let_def isPast_def)

lemma dueDateStep_empty:
  "getProp r k_due_date = JString [] \<Longrightarrow>
   dueDateStep eng cd r = Inr (setProp r k_due_date JNull)"
  by (simp add: dueDateStep_def)

lemma dueDateStep_other:
  "typeof (getProp r k_due_date) \<noteq> TString \<Longrightarrow>
   dueDateStep eng cd r = Inr (setProp r k_due_date JNull)"
  by (simp add: dueDateStep_def)

lemma isPast_irrefl: "\<not> isPast eng cd cd"
  by (simp add: isPast_def Date_lt_irrefl)

lemma dueDateStep_fixed:
  assumes "isNullOr (\<lambda>s. dateRegex_test s \<and> \<not> isPast eng cd s) (getProp r k_due_date)"
  shows "dueDateStep eng cd r = Inr r"
proof (cases "getProp r k_due_date")
  case JNull
  then show ?thesis by (simp add: dueDateStep_other setProp_same)
next
  case (JString s)
  then show ?thesis using assms by (simp add: dueDateStep_kept)
qed (use assms in simp_all)

lemma dueTimeStep_fixed:
  assumes "isNullOr timeRegex_test (getProp r k_due_time)"
  shows "dueTimeStep r = Inr r"
proof (cases "getProp r k_due_time")
  case JNull
  then show ?thesis by (simp add: dueTimeStep_def setProp_same)
next
  case (JString s)
  then show ?thesis using assms by (cases "s = []") (simp_all add: dueTimeStep_def andThen_def)
qed (use assms in simp_all)

lemma priorityStep_shape:
  "\<exists>v. priorityStep r = Inr (setProp r k_priority v) \<and> v \<in> set priorities"
proof (cases "\<not> truthy (getProp r k_priority) \<or> getProp r k_priority \<notin> set priorities")
  case True
  then have "priorityStep r = Inr (setProp r k_priority (JString (ascii ''medium'')))"
    by (simp add: priorityStep_def)
  then show ?thesis by (intro exI[of _ "JString (ascii ''medium'')"]) (simp add: priorities_def)
next
  case False
  then have "priorityStep r = Inr r" by (simp add: priorityStep_def)
  moreover have "getProp r k_priority \<noteq> JUndefined" using False by auto
  ultimately have "priorityStep r = Inr (setProp r k_priority (getProp r k_priority))"
    by (simp add: setProp_same)
  then show ?thesis using False by blast
qed

lemma priorityStep_fixed:
  assumes "getProp r k_priority \<in> set priorities"
  shows "priorityStep r = Inr r"
  using assms by (auto simp: priorityStep_def priorities_def ascii_def)

lemma dueTimeStep_exact:
  "dueTimeStep r = Inr (setProp r k_due_time (normTime (getProp r k_due_time)))"
proof (cases "getProp r k_due_time")
  case (JString s)
  then show ?thesis
    by (cases "s = []"; cases "timeRegex_test s")
       (simp_all add: dueTimeStep_def andThen_def setProp_same)
qed (simp_all add: dueTimeStep_def)

lemma dueDateStep_exact:
  "dueDateStep eng cd r = Inr (setProp r k_due_date (normDate eng cd (getProp r k_due_date)))"
proof (cases "getProp r k_due_date")
  case (JString s)
  consider "s = []" | "s \<noteq> []" "isPast eng cd s" | "\<not> isPast eng cd s" "dateRegex_test s"
    | "\<not> isPast eng cd s" "\<not> dateRegex_test s" by blast
  then show ?thesis
  proof cases
    case 1
    then show ?thesis using dueDateStep_empty[of r eng cd] JString by simp
  next
    case 2
    then show ?thesis using dueDateStep_past[OF JString] JString by simp
  next
    case 3
    then show ?thesis using dueDateStep_kept[OF JString] JString by (simp add: setProp_same)
  next
    case 4
    then show ?thesis using dueDateStep_malformed[OF JString] JString by simp
  qed
qed (simp_all add: dueDateStep_other)

lemma normTime_ok: "isNullOr timeRegex_test (normTime v)"
  by (cases v) simp_all

lemma keys_distinct:
  "k_title \<noteq> k_description" "k_title \<noteq> k_due_date" "k_title \<noteq> k_due_time"
  "k_title \<noteq> k_priority" "k_title \<noteq> k_category"
  "k_description \<noteq> k_due_date" "k_description \<noteq> k_due_time"
  "k_description \<noteq> k_priority" "k_description \<noteq> k_category"
  "k_due_date \<noteq> k_due_time" "k_due_date \<noteq> k_priority" "k_due_date \<noteq> k_category"
  "k_due_time \<noteq> k_priority" "k_due_time \<noteq> k_category" "k_priority \<noteq> k_category"
  by (simp_all add: ascii_def)

lemmas getProp_simps = getProp_setProp keys_distinct keys_distinct[symmetric] if_True if_False refl simp_thms

lemma postprocessResult_shape:
  "\<exists>t d p c.
     postprocessResult eng data cd =
       Inr (setProp (setProp (setProp (setProp (setProp (setProp (spread data)
              k_title (JString t)) k_description d)
              k_due_date (normDate eng cd (getProp (spread data) k_due_date)))
              k_due_time (normTime (getProp (spread data) k_due_time)))
              k_priority p) k_category c)
     \<and> t \<noteq> [] \<and> length t \<le> 100 \<and> trim t = t
     \<and> isNullOr trimmedText d
     \<and> p \<in> set priorities
     \<and> isNullOr trimmedText c"
proof -
  obtain t where 1: "titleStep (spread data) = Inr (setProp (spread data) k_title (JString t))"
    and t: "t \<noteq> []" "length t \<le> 100" "trim t = t"
    using titleStep_shape by blast
  let ?r1 = "setProp (spread data) k_title (JString t)"
  obtain d where 2: "textStep k_description ?r1 = Inr (setProp ?r1 k_description d)"
    and d: "isNullOr trimmedText d"
    using textStep_shape by blast
  let ?r2 = "setProp ?r1 k_description d"
  let ?dd = "normDate eng cd (getProp (spread data) k_due_date)"
  have "getProp ?r2 k_due_date = getProp (spread data) k_due_date"
    by (simp only: getProp_simps)
  then have 3: "dueDateStep eng cd ?r2 = Inr (setProp ?r2 k_due_date ?dd)"
    by (simp only: dueDateStep_exact)
  let ?r3 = "setProp ?r2 k_due_date ?dd"
  let ?dt = "normTime (getProp (spread data) k_due_time)"
  have "getProp ?r3 k_due_time = getProp (spread data) k_due_time"
    by (simp only: getProp_simps)
  then have 4: "dueTimeStep ?r3 = Inr (setProp ?r3 k_due_time ?dt)"
    by (simp only: dueTimeStep_exact)
  let ?r4 = "setProp ?r3 k_due_time ?dt"
  obtain p where 5: "priorityStep ?r4 = Inr (setProp ?r4 k_priority p)"
    and p: "p \<in> set priorities"
    using priorityStep_shape by blast
  let ?r5 = "setProp ?r4 k_priority p"
  obtain c where 6: "textStep k_category ?r5 = Inr (setProp ?r5 k_category c)"
    and c: "isNullOr trimmedText c"
    using textStep_shape by blast
  have "postprocessResult eng data cd = Inr (setProp ?r5 k_category c)"
    unfolding postprocessResult_def
    by (simp only: 1 2 3 4 5 6 andThen_def sum.case)
  with t d p c show ?thesis by blast
qed

lemma postprocessResult_fields:
  "\<exists>r t. postprocessResult eng data cd = Inr r
     \<and> getProp r k_title = JString t \<and> t \<noteq> [] \<and> length t \<le> 100 \<and> trim t = t
     \<and> isNullOr trimmedText (getProp r k_description)
     \<and> getProp r k_due_date = normDate eng cd (getProp (spread data) k_due_date)
     \<and> getProp r k_due_time = normTime (getProp (spread data) k_due_time)
     \<and> getProp r k_priority \<in> set priorities
     \<and> isNullOr trimmedText (getProp r k_category)"
proof -
  let ?dd = "normDate eng cd (getProp (spread data) k_due_date)"
  let ?dt = "normTime (getProp (spread data) k_due_time)"
  obtain t d p c where
    r: "postprocessResult eng data cd =
       Inr (setProp (setProp (setProp (setProp (setProp (setProp (spread data)
              k_title (JString t)) k_description d) k_due_date ?dd) k_due_time ?dt)
              k_priority p) k_category c)"
     and g: "t \<noteq> []" "length t \<le> 100" "trim t = t"
      "isNullOr trimmedText d"
      "p \<in> set priorities"
      "isNullOr trimmedText c"
    using postprocessResult_shape[of eng data cd] by blast
  let ?r = "setProp (setProp (setProp (setProp (setProp (setProp (spread data)
              k_title (JString t)) k_description d) k_due_date ?dd) k_due_time ?dt)
              k_priority p) k_category c"
  have f: "getProp ?r k_title = JString t" "getProp ?r k_description = d" "getProp ?r k_due_date = ?dd"
    "getProp ?r k_due_time = ?dt" "getProp ?r k_priority = p" "getProp ?r k_category = c"
    by (simp_all only: getProp_simps)
  show ?thesis
    apply (rule exI[of _ ?r])
    apply (rule exI[of _ t])
    apply (simp only: f r g simp_thms)
    done
qed

lemma resultProp_due_time:
  "resultProp (postprocessResult eng data cd) k_due_time = Some (normTime (getProp (spread data) k_due_time))"
  using postprocessResult_fields[of eng data cd] by (auto simp: resultProp_def)

lemma resultProp_due_date:
  "resultProp (postprocessResult eng data cd) k_due_date = Some (normDate eng cd (getProp (spread data) k_due_date))"
  using postprocessResult_fields[of eng data cd] by (auto simp: resultProp_def)

text \<open>
  Claim C3. For every input value and every current-date string, \<open>postprocessResult\<close>
  returns without raising, and in the object it returns the title is a non-empty
  string of at most 100 code units, the priority is one of high, medium and low,
  due_time is \<open>null\<close> or matches \<open>HH:mm\<close> (hours 00 to 23, minutes 00 to 59), and
  description and category are \<open>null\<close> or a non-empty trimmed string. For every
  current date of the form \<open>YYYY-MM-DD\<close>, which is the form of every current date that
  the route passes, due_date is \<open>null\<close> or matches \<open>YYYY-MM-DD\<close>; for any string
  whatever in its place, due_date is \<open>null\<close>, matches \<open>YYYY-MM-DD\<close> or is that string.
  A due_time of \<open>25:00\<close> or \<open>9:5\<close> becomes \<open>null\<close>, and \<open>09:05\<close> is kept.
\<close>

theorem postprocessResult_output:
  "(\<exists>r. postprocessResult eng data currentDate = Inr r
      \<and> isTitle (getProp r k_title)
      \<and> getProp r k_priority \<in> set priorities
      \<and> isNullOr timeRegex_test (getProp r k_due_time)
      \<and> (dateRegex_test currentDate \<longrightarrow> isNullOr dateRegex_test (getProp r k_due_date))
      \<and> isNullOr (\<lambda>s. dateRegex_test s \<or> s = currentDate) (getProp r k_due_date)
      \<and> isNullOr trimmedText (getProp r k_description)
      \<and> isNullOr trimmedText (getProp r k_category))
   \<and> resultProp (postprocessResult eng (JObject (setProp obj k_due_time (JString (ascii ''25:00''))))
         currentDate) k_due_time = Some JNull
   \<and> resultProp (postprocessResult eng (JObject (setProp obj k_due_time (JString (ascii ''9:5''))))
         currentDate) k_due_time = Some JNull
   \<and> resultProp (postprocessResult eng (JObject (setProp obj k_due_time (JString (ascii ''09:05''))))
         currentDate) k_due_time = Some (JString (ascii ''09:05''))"
proof -
  obtain r t where r: "postprocessResult eng data currentDate = Inr r"
    and f: "getProp r k_title = JString t" "t \<noteq> []" "length t \<le> 100"
      "isNullOr trimmedText (getProp r k_description)"
      "getProp r k_due_date = normDate eng currentDate (getProp (spread data) k_due_date)"
      "getProp r k_due_time = normTime (getProp (spread data) k_due_time)"
      "getProp r k_priority \<in> set priorities"
      "isNullOr trimmedText (getProp r k_category)"
    using postprocessResult_fields[of eng data currentDate] by blast
  have "isNullOr (\<lambda>s. dateRegex_test s \<or> s = currentDate) (normDate eng currentDate v)" for v
    by (cases v) simp_all
  then have "isNullOr (\<lambda>s. dateRegex_test s \<or> s = currentDate) (getProp r k_due_date)"
    by (simp only: f)
  moreover have "dateRegex_test currentDate \<longrightarrow> isNullOr dateRegex_test (normDate eng currentDate v)" for v
    by (cases v) simp_all
  then have "dateRegex_test currentDate \<longrightarrow> isNullOr dateRegex_test (getProp r k_due_date)"
    by (simp only: f)
  moreover have "isNullOr timeRegex_test (getProp r k_due_time)"
    by (simp only: f normTime_ok)
  moreover have "isTitle (getProp r k_title)" using f by simp
  ultimately have general: "\<exists>r. postprocessResult eng data currentDate = Inr r
      \<and> isTitle (getProp r k_title)
      \<and> getProp r k_priority \<in> set priorities
      \<and> isNullOr timeRegex_test (getProp r k_due_time)
      \<and> (dateRegex_test currentDate \<longrightarrow> isNullOr dateRegex_test (getProp r k_due_date))
      \<and> isNullOr (\<lambda>s. dateRegex_test s \<or> s = currentDate) (getProp r k_due_date)
      \<and> isNullOr trimmedText (getProp r k_description)
      \<and> isNullOr trimmedText (getProp r k_category)"
    using r f by blast
  have a: "\<not> timeRegex_test (ascii ''25:00'')" by (simp add: ascii_def isDigit_def)
  have b: "\<not> timeRegex_test (ascii ''9:5'')" by (simp add: ascii_def)
  have c: "timeRegex_test (ascii ''09:05'')" by (simp add: ascii_def isDigit_def)
  show ?thesis
    by (simp only: general resultProp_due_time spread.simps getProp_setProp if_True if_False normTime.simps a b c simp_thms)
qed

text \<open>
  The same at a concrete input with a past due date and the current date
  \<open>2025-06-10\<close>, which is of the form \<open>YYYY-MM-DD\<close>.
\<close>

theorem postprocessResult_output_witness:
  "dateRegex_test (ascii ''2025-06-10'')
   \<and> (\<exists>r. postprocessResult utcEngine
           (JObject [(k_title, JNumber (Num 7)), (k_due_date, JString (ascii ''2020-01-01''))])
           (ascii ''2025-06-10'') = Inr r
      \<and> isTitle (getProp r k_title)
      \<and> getProp r k_priority \<in> set priorities
      \<and> isNullOr timeRegex_test (getProp r k_due_time)
      \<and> isNullOr dateRegex_test (getProp r k_due_date)
      \<and> isNullOr trimmedText (getProp r k_description)
      \<and> isNullOr trimmedText (getProp r k_category))
   \<and> resultProp (postprocessResult utcEngine (JObject [(k_due_time, JString (ascii ''25:00''))])
         (ascii ''2025-06-10'')) k_due_time = Some JNull"
proof -
  have d: "dateRegex_test (ascii ''2025-06-10'')" by (simp add: ascii_def isDigit_def)
  note T = postprocessResult_output[of utcEngine
      "JObject [(k_title, JNumber (Num 7)), (k_due_date, JString (ascii ''2020-01-01''))]"
      "ascii ''2025-06-10''" "[]"]
  from T d have g: "\<exists>r. postprocessResult utcEngine
           (JObject [(k_title, JNumber (Num 7)), (k_due_date, JString (ascii ''2020-01-01''))])
           (ascii ''2025-06-10'') = Inr r
      \<and> isTitle (getProp r k_title)
      \<and> getProp r k_priority \<in> set priorities
      \<and> isNullOr timeRegex_test (getProp r k_due_time)
      \<and> isNullOr dateRegex_test (getProp r k_due_date)
      \<and> isNullOr trimmedText (getProp r k_description)
      \<and> isNullOr trimmedText (getProp r k_category)"
    by blast
  from T have t: "resultProp (postprocessResult utcEngine (JObject [(k_due_time, JString (ascii ''25:00''))])
         (ascii ''2025-06-10'')) k_due_time = Some JNull"
    by (simp add: setProp_def)
  show ?thesis using d g t by blast
qed


text \<open>
  Claim C4. For every input value and every current date of the form \<open>YYYY-MM-DD\<close>,
  which is the form of every current date that the route passes, normalizing the
  returned object again, with the same current date, returns the same object: the same
  properties with the same values in the same order.
\<close>

theorem postprocessResult_idempotent:
  assumes "dateRegex_test currentDate"
  shows "\<exists>r. postprocessResult eng data currentDate = Inr r
           \<and> postprocessResult eng (JObject r) currentDate = Inr r"
proof -
  obtain r t where r: "postprocessResult eng data currentDate = Inr r"
    and f: "getProp r k_title = JString t" "t \<noteq> []" "length t \<le> 100" "trim t = t"
      "isNullOr trimmedText (getProp r k_description)"
      "getProp r k_due_date = normDate eng currentDate (getProp (spread data) k_due_date)"
      "getProp r k_due_time = normTime (getProp (spread data) k_due_time)"
      "getProp r k_priority \<in> set priorities"
      "isNullOr trimmedText (getProp r k_category)"
    using postprocessResult_fields[of eng data currentDate] by blast
  have "isNullOr (\<lambda>s. dateRegex_test s \<and> \<not> isPast eng currentDate s) (normDate eng currentDate v)" for v
    using assms by (cases v) (auto simp: isPast_irrefl)
  then have dd: "isNullOr (\<lambda>s. dateRegex_test s \<and> \<not> isPast eng currentDate s) (getProp r k_due_date)"
    by (simp only: f)
  have dt: "isNullOr timeRegex_test (getProp r k_due_time)"
    by (simp only: f normTime_ok)
  have 1: "titleStep r = Inr r" using f(1-4) by (rule titleStep_fixed)
  have 2: "textStep k_description r = Inr r" using f(5) by (rule textStep_fixed)
  have 3: "dueDateStep eng currentDate r = Inr r" using dd by (rule dueDateStep_fixed)
  have 4: "dueTimeStep r = Inr r" using dt by (rule dueTimeStep_fixed)
  have 5: "priorityStep r = Inr r" using f(8) by (rule priorityStep_fixed)
  have 6: "textStep k_category r = Inr r" using f(9) by (rule textStep_fixed)
  have "postprocessResult eng (JObject r) currentDate = Inr r"
    unfolding postprocessResult_def by (simp only: spread.simps 1 2 3 4 5 6 andThen_def sum.case)
  with r show ?thesis by blast
qed

text \<open>
  The same at a concrete input whose due date lies in the past.
\<close>

theorem postprocessResult_idempotent_witness:
  "dateRegex_test (ascii ''2025-06-10'')
   \<and> (\<exists>r. postprocessResult utcEngine
             (JObject [(k_title, JString (ascii '' buy milk '')), (k_due_date, JString (ascii ''2025-06-09''))])
             (ascii ''2025-06-10'') = Inr r
          \<and> postprocessResult utcEngine (JObject r) (ascii ''2025-06-10'') = Inr r)"
proof -
  have d: "dateRegex_test (ascii ''2025-06-10'')" by (simp add: ascii_def isDigit_def)
  show ?thesis using d postprocessResult_idempotent[OF d] by simp
qed




subsection \<open>Calendar arithmetic\<close>

lemma div_succ:
  assumes "0 < (k::int)"
  shows "(a + 1) div k = a div k + (if (a + 1) mod k = 0 then 1 else 0)"
proof (cases "a mod k + 1 < k")
  case True
  have e: "a + 1 = k * (a div k) + (a mod k + 1)" by simp
  have nn: "0 \<le> a mod k + 1" using assms by (simp add: add_nonneg_nonneg)
  have "(a + 1) div k = a div k" using e nn True by (rule int_div_pos_eq)
  moreover have "(a + 1) mod k = a mod k + 1" using e nn True by (rule int_mod_pos_eq)
  ultimately show ?thesis using assms by (simp add: add_nonneg_eq_0_iff)
next
  case False
  have "a mod k < k" using assms by simp
  with False have r: "a mod k + 1 = k" by simp
  have "a + 1 = k * (a div k) + (a mod k + 1)" by simp
  then have e: "a + 1 = k * (a div k + 1) + 0" by (simp only: r) (simp add: algebra_simps)
  have "(a + 1) div k = a div k + 1" using e _ assms by (rule int_div_pos_eq) simp
  moreover have "(a + 1) mod k = 0" using e _ assms by (rule int_mod_pos_eq) simp
  ultimately show ?thesis by simp
qed

lemma mod_shift: "((y::int) - k * c) mod k = y mod k"
  by (subst mod_diff_eq[symmetric]) simp

lemma s4: "((y::int) - 1968) mod 4 = y mod 4" using mod_shift[of y 4 492] by simp
lemma s100: "((y::int) - 1900) mod 100 = y mod 100" using mod_shift[of y 100 19] by simp
lemma s400: "((y::int) - 1600) mod 400 = y mod 400" using mod_shift[of y 400 4] by simp

lemma a4: "((y::int) - 1968) div 4 = (y - 1969) div 4 + (if y mod 4 = 0 then 1 else 0)"
  using div_succ[of 4 "y - 1969"] s4[of y] by simp
lemma a100: "((y::int) - 1900) div 100 = (y - 1901) div 100 + (if y mod 100 = 0 then 1 else 0)"
  using div_succ[of 100 "y - 1901"] s100[of y] by simp
lemma a400: "((y::int) - 1600) div 400 = (y - 1601) div 400 + (if y mod 400 = 0 then 1 else 0)"
  using div_succ[of 400 "y - 1601"] s400[of y] by simp

lemma mod_100_4: "(y::int) mod 100 = 0 \<Longrightarrow> y mod 4 = 0"
proof -
  assume "y mod 100 = 0"
  then have "100 dvd y" by (simp only: mod_eq_0_iff_dvd)
  moreover have "(4::int) dvd 100" by simp
  ultimately have "4 dvd y" by (rule dvd_trans[rotated])
  then show ?thesis by (simp only: mod_eq_0_iff_dvd)
qed
lemma mod_400_100: "(y::int) mod 400 = 0 \<Longrightarrow> y mod 100 = 0"
proof -
  assume "y mod 400 = 0"
  then have "400 dvd y" by (simp only: mod_eq_0_iff_dvd)
  moreover have "(100::int) dvd 400" by simp
  ultimately have "100 dvd y" by (rule dvd_trans[rotated])
  then show ?thesis by (simp only: mod_eq_0_iff_dvd)
qed

lemma DayFromYear_step:
  "DayFromYear (y + 1) = DayFromYear y + (if InLeapYear y then 366 else 365)"
proof -
  have "DayFromYear (y + 1) = 365 * (y - 1969) + (y - 1968) div 4 - (y - 1900) div 100 + (y - 1600) div 400"
    by (simp add: DayFromYear_def)
  also have "\<dots> = DayFromYear y + 365 + (if y mod 4 = 0 then 1 else 0)
       - (if y mod 100 = 0 then 1 else 0) + (if y mod 400 = 0 then 1 else 0)"
    by (simp only: a4 a100 a400 DayFromYear_def) (simp add: algebra_simps)
  also have "\<dots> = DayFromYear y + (if InLeapYear y then 366 else 365)"
    using mod_100_4[of y] mod_400_100[of y] by (cases "y mod 4 = 0"; cases "y mod 100 = 0"; cases "y mod 400 = 0") (simp_all add: InLeapYear_def)
  finally show ?thesis .
qed

lemma DayFromYear_mono: "y \<le> y' \<Longrightarrow> DayFromYear y \<le> DayFromYear y'"
proof (induction y' rule: int_ge_induct)
  case base
  show ?case by simp
next
  case (step i)
  then show ?case by (simp add: DayFromYear_step)
qed

lemma DaysBeforeMonth_Suc:
  "1 \<le> m \<Longrightarrow> DaysBeforeMonth y (Suc m) = DaysBeforeMonth y m + DaysInMonth y m"
  by (simp add: DaysBeforeMonth_def)

lemma DaysBeforeMonth_mono:
  "m \<le> m' \<Longrightarrow> DaysBeforeMonth y m \<le> DaysBeforeMonth y m'"
proof (induction m' )
  case 0
  then show ?case by simp
next
  case (Suc n)
  show ?case
  proof (cases "m = Suc n")
    case True then show ?thesis by simp
  next
    case False
    with Suc have le: "m \<le> n" by simp
    show ?thesis
    proof (cases "1 \<le> n")
      case True
      then show ?thesis using Suc.IH[OF le] by (simp add: DaysBeforeMonth_Suc)
    next
      case False
      then have "n = 0" by simp
      then show ?thesis using le by (simp add: DaysBeforeMonth_def)
    qed
  qed
qed

lemma DaysBeforeMonth_13:
  "DaysBeforeMonth y 13 = (if InLeapYear y then 366 else 365)"
  by (simp add: DaysBeforeMonth_def DaysInMonth_def upt_rec)

lemma day_in_year:
  assumes "validDate y m d"
  shows "DaysBeforeMonth y m + d \<le> (if InLeapYear y then 366 else 365)"
proof -
  from assms have m: "1 \<le> m" "m \<le> 12" and d: "d \<le> DaysInMonth y m"
    by (simp_all add: validDate_def)
  have "DaysBeforeMonth y m + d \<le> DaysBeforeMonth y (Suc m)"
    using m d by (simp add: DaysBeforeMonth_Suc)
  also have "\<dots> \<le> DaysBeforeMonth y 13"
    using m by (intro DaysBeforeMonth_mono) simp
  finally show ?thesis by (simp only: DaysBeforeMonth_13)
qed

lemma MakeDay_mono:
  assumes "validDate y m d" "validDate y' m' d'" "dateBefore (y, m, d) (y', m', d')"
  shows "MakeDay y m d < MakeDay y' m' d'"
proof -
  consider "y < y'" | "y = y'" "m < m'" | "y = y'" "m = m'" "d < d'"
    using assms(3) by (auto simp: dateBefore_def)
  then show ?thesis
  proof cases
    case 1
    have "MakeDay y m d < DayFromYear (y + 1)"
      using day_in_year[OF assms(1)] by (simp add: MakeDay_def DayFromYear_step split: if_splits)
    also have "\<dots> \<le> DayFromYear y'" using 1 by (intro DayFromYear_mono) simp
    also have "\<dots> \<le> MakeDay y' m' d'" using assms(2) by (simp add: MakeDay_def validDate_def)
    finally show ?thesis .
  next
    case 2
    have "1 \<le> m" "d \<le> DaysInMonth y m" "1 \<le> d'" using assms by (simp_all add: validDate_def)
    then have "DaysBeforeMonth y m + d \<le> DaysBeforeMonth y (Suc m)"
      by (simp add: DaysBeforeMonth_Suc)
    also have "\<dots> \<le> DaysBeforeMonth y m'" using 2 by (intro DaysBeforeMonth_mono) simp
    finally show ?thesis using 2 \<open>1 \<le> d'\<close> by (simp add: MakeDay_def)
  next
    case 3
    then show ?thesis by (simp add: MakeDay_def)
  qed
qed

lemma digitVal_le: "isDigit c \<Longrightarrow> digitVal c \<le> 9"
  by (auto simp: isDigit_def digitVal_def word_le_nat_alt)

lemma num4_le: "isDigit a \<Longrightarrow> isDigit b \<Longrightarrow> isDigit c \<Longrightarrow> isDigit d \<Longrightarrow> num4 a b c d \<le> 9999"
  using digitVal_le[of a] digitVal_le[of b] digitVal_le[of c] digitVal_le[of d]
  by (simp add: num4_def)

lemma readDateOnly_valid:
  assumes "readDateOnly s = Some (y, m, d)"
  shows "validDate y m d \<and> 0 \<le> y \<and> y \<le> 9999"
  using assms
proof (cases s rule: readDateOnly.cases)
  case (1 y1 y2 y3 y4 a m1 m2 b d1 d2)
  then show ?thesis using assms num4_le[of y1 y2 y3 y4] by (simp split: if_splits)
next
  case (2 y1 y2 y3 y4 a m1 m2)
  then show ?thesis using assms num4_le[of y1 y2 y3 y4] by (simp split: if_splits)
next
  case (3 y1 y2 y3 y4)
  then show ?thesis using assms num4_le[of y1 y2 y3 y4] by (simp add: validDate_def DaysInMonth_def split: if_splits)
qed (use assms in simp_all)

lemma MakeDay_bounds:
  assumes "validDate y m d" "0 \<le> y" "y \<le> 9999"
  shows "\<bar>MakeDay y m d\<bar> \<le> 4000000"
proof -
  have lo: "DayFromYear 0 \<le> DayFromYear y" using assms(2) by (rule DayFromYear_mono)
  have hi: "DayFromYear y \<le> DayFromYear 9999" using assms(3) by (rule DayFromYear_mono)
  have v: "DayFromYear 0 = -719528" "DayFromYear 9999 = 2932532" by (simp_all add: DayFromYear_def)
  have "DaysBeforeMonth y m + d \<le> 366" using day_in_year[OF assms(1)] by (simp split: if_splits)
  then show ?thesis using lo hi v by (simp add: MakeDay_def)
qed

text \<open>
  On a host whose offset from UTC never changes, a past calendar date is before the
  current one after both are cut down to their local days.
\<close>

lemma setHours0_day:
  assumes "\<bar>k\<bar> \<le> 4000000" and "\<forall>t isUTC. localTZA eng t isUTC = z"
  shows "setHours0 eng (Some (msPerDay * k)) = Some (msPerDay * k - z mod msPerDay)"
proof -
  have q: "(msPerDay * k + z) div msPerDay = k + z div msPerDay"
    by (simp add: msPerDay_def)
  have "(k + z div msPerDay) * msPerDay - z = msPerDay * k - z mod msPerDay"
    using div_mult_mod_eq[of z msPerDay] by (simp add: algebra_simps)
  then have e: "((msPerDay * k + z) div msPerDay) * msPerDay - z = msPerDay * k - z mod msPerDay"
    by (simp only: q)
  have r: "0 \<le> z mod msPerDay" "z mod msPerDay < msPerDay" by (simp_all add: msPerDay_def)
  have bound: "\<bar>86400000 * k - x\<bar> \<le> 8640000000000000"
    if "0 \<le> x" "x < 86400000" "\<bar>k\<bar> \<le> 4000000" for x k :: int
    using that by linarith
  have "\<bar>msPerDay * k - z mod msPerDay\<bar> \<le> 8640000000000000"
    using bound[OF r[unfolded msPerDay_def] assms(1)] by (simp only: msPerDay_def)
  then show ?thesis using assms(2) by (simp add: setHours0_def TimeClip_def e)
qed

lemma isPast_dates:
  assumes "readDateOnly s = Some due" "readDateOnly cd = Some today" "dateBefore due today"
    and "\<forall>t isUTC. localTZA eng t isUTC = z"
  shows "isPast eng cd s"
proof -
  obtain y m d where due: "due = (y, m, d)" by (cases due)
  obtain y' m' d' where today: "today = (y', m', d')" by (cases today)
  have v: "validDate y m d" "0 \<le> y" "y \<le> 9999"
    using readDateOnly_valid[of s y m d] assms(1) due by simp_all
  have v': "validDate y' m' d'" "0 \<le> y'" "y' \<le> 9999"
    using readDateOnly_valid[of cd y' m' d'] assms(2) today by simp_all
  have lt: "MakeDay y m d < MakeDay y' m' d'"
    using v(1) v'(1) assms(3) unfolding due today by (rule MakeDay_mono)
  have a: "setHours0 eng (Date_parse eng s)
      = Some (msPerDay * MakeDay y m d - z mod msPerDay)"
    using assms(1) due setHours0_day[OF MakeDay_bounds[OF v] assms(4)] by (simp add: Date_parse_def)
  have b: "setHours0 eng (Date_parse eng cd)
      = Some (msPerDay * MakeDay y' m' d' - z mod msPerDay)"
    using assms(2) today setHours0_day[OF MakeDay_bounds[OF v'] assms(4)] by (simp add: Date_parse_def)
  show ?thesis using lt by (simp add: isPast_def a b msPerDay_def)
qed

lemma readDateOnly_nonempty: "readDateOnly s = Some x \<Longrightarrow> s \<noteq> []"
  by auto

lemma past_due_date_constant_offset:
  assumes "getProp (spread data) k_due_date = JString s"
    and "readDateOnly s = Some due" and "readDateOnly currentDate = Some today"
    and "dateBefore due today"
    and "\<forall>t isUTC. localTZA eng t isUTC = z"
  shows "resultProp (postprocessResult eng data currentDate) k_due_date = Some (JString currentDate)"
  using assms(1) isPast_dates[OF assms(2-5)] readDateOnly_nonempty[OF assms(2)]
  by (simp add: resultProp_due_date)

text \<open>
  Claim C6 on the code. The due date is parsed as midnight UTC and then cut down to the
  start of its local day, and so is the current date. In the Atlantic/Azores zone,
  where summer time ends on 26 October 2025 at 01:00 UTC, midnight UTC of 27 October is
  23:00 of 26 October in local time: both dates are cut down to the same instant, the
  test \<open>dueDate < today\<close> is false, and the due date \<open>2025-10-26\<close>, the day before the
  current date \<open>2025-10-27\<close>, is kept and not replaced by the current date.
\<close>

theorem past_due_date_kept_at_offset_change:
  "dateRegex_test (ascii ''2025-10-26'')
   \<and> readDateOnly (ascii ''2025-10-26'') = Some (2025, 10, 26)
   \<and> readDateOnly (ascii ''2025-10-27'') = Some (2025, 10, 27)
   \<and> dateBefore (2025, 10, 26) (2025, 10, 27)
   \<and> setHours0 azoresEngine (Date_parse azoresEngine (ascii ''2025-10-26'')) = Some 1761436800000
   \<and> setHours0 azoresEngine (Date_parse azoresEngine (ascii ''2025-10-27'')) = Some 1761436800000
   \<and> postprocessResult azoresEngine
       (JObject [(k_title, JString (ascii ''pay rent'')), (k_due_date, JString (ascii ''2025-10-26'')),
                 (k_priority, JString (ascii ''high''))])
       (ascii ''2025-10-27'')
     = Inr [(k_title, JString (ascii ''pay rent'')), (k_due_date, JString (ascii ''2025-10-26'')),
            (k_priority, JString (ascii ''high'')), (k_description, JNull), (k_due_time, JNull),
            (k_category, JNull)]"
  by code_simp

section \<open>Properties of the generate-todo route\<close>

lemma validateInput_invalid:
  assumes "text = [] \<or> text = ascii ''a'' \<or> length (trim text) = 1 \<or> 500 < length text"
  shows "\<not> isValid (validateInput text)"
proof -
  have a: "trim (ascii ''a'') = ascii ''a''" by (simp add: trim_def ascii_def isWhiteSpace_def)
  consider "text = []" | "length (trim text) = 0" | "length (trim text) = 1" | "500 < length text"
    using assms a by (auto simp: ascii_def)
  then show ?thesis
    by cases (simp_all add: validateInput_def Let_def)
qed

lemma POST_generate_invalid:
  assumes "propertyOf reqBody (ascii ''text'') = Inr (JString text)"
    and "\<not> isValid (validateInput text)"
  shows "status (fst (POST_generate h (Inr reqBody))) = 400"
    and "snd (POST_generate h (Inr reqBody)) = []"
  using assms by (simp_all add: POST_generate_def Let_def)

text \<open>
  Claim C7. A request whose \<open>text\<close> is the empty string, the string \<open>a\<close>, any string
  that is one code unit long after trimming, or any string longer than 500 code units
  gets status 400, and no model is called.
\<close>

theorem invalid_text_rejected:
  assumes "propertyOf reqBody (ascii ''text'') = Inr (JString text)"
    and "text = [] \<or> text = ascii ''a'' \<or> length (trim text) = 1 \<or> 500 < length text"
  shows "status (fst (POST_generate h (Inr reqBody))) = 400
       \<and> snd (POST_generate h (Inr reqBody)) = []"
  using POST_generate_invalid[OF assms(1) validateInput_invalid[OF assms(2)]] by simp

text \<open>
  The same for the text \<open>a\<close>.
\<close>

theorem invalid_text_rejected_witness:
  "propertyOf (JObject [(ascii ''text'', JString (ascii ''a''))]) (ascii ''text'')
     = Inr (JString (ascii ''a''))
   \<and> status (fst (POST_generate quotaHost (Inr (JObject [(ascii ''text'', JString (ascii ''a''))])))) = 400
   \<and> snd (POST_generate quotaHost (Inr (JObject [(ascii ''text'', JString (ascii ''a''))]))) = []"
proof -
  have a: "propertyOf (JObject [(ascii ''text'', JString (ascii ''a''))]) (ascii ''text'')
     = Inr (JString (ascii ''a''))" by (simp add: propertyOf_def getProp_def)
  have b: "ascii ''a'' = [] \<or> ascii ''a'' = ascii ''a'' \<or> length (trim (ascii ''a'')) = 1
     \<or> 500 < length (ascii ''a'')" by simp
  show ?thesis using a invalid_text_rejected[OF a b, of quotaHost] by simp
qed

lemma tryModels_first_fails:
  assumes "generateObject h m1 t (dateNow h) (timeNow h) = Inl e"
  shows "snd (tryModels h t [m1, m2] None) = [m1, m2]"
    and "fst (tryModels h t [m1, m2] None) =
      (case generateObject h m2 t (dateNow h) (timeNow h) of
         Inr object \<Rightarrow> (object, Some e) | Inl e2 \<Rightarrow> (JNull, Some e2))"
  using assms by (simp_all split: sum.splits)

lemma postprocessResult_total: "\<exists>r. postprocessResult eng data cd = Inr r"
  using postprocessResult_fields[of eng data cd] by blast

lemma POST_generate_valid:
  assumes "propertyOf reqBody (ascii ''text'') = Inr (JString text)"
    and "isValid (validateInput text)" and "apiKey h = Some key" and "key \<noteq> []"
  shows "POST_generate h (Inr reqBody) =
    (case tryModels h (preprocessInput text) modelNames None of
       ((object, lastError), called) \<Rightarrow>
         if \<not> truthy object then (exhaustedResponse (engine h) lastError, called)
         else (case postprocessResult (engine h) object (dateNow h) of
            Inl e \<Rightarrow> (catchResponse (engine h) GenerationError (typeErrorMessage h), called)
          | Inr processedResult \<Rightarrow>
              (\<lparr>status = 200, json = DataBody (JObject processedResult)\<rparr>, called)))"
  using assms by (simp add: POST_generate_def Let_def)

text \<open>
  Claim C2, as the code has it. When the call of the first model name fails, whatever
  the error, the second model name is called next. If that call returns an object the
  response is 200; if it fails too, the response is the one that classifies its error.
\<close>

theorem fallback_on_every_failure:
  assumes "propertyOf reqBody (ascii ''text'') = Inr (JString text)"
    and "isValid (validateInput text)" and "apiKey h = Some key" and "key \<noteq> []"
    and "generateObject h (ascii ''gemini-2.5-flash'') (preprocessInput text)
           (dateNow h) (timeNow h) = Inl modelError"
  shows "snd (POST_generate h (Inr reqBody)) = [ascii ''gemini-2.5-flash'', ascii ''gemini-1.5-flash'']
    \<and> (case generateObject h (ascii ''gemini-1.5-flash'') (preprocessInput text)
              (dateNow h) (timeNow h) of
          Inr object \<Rightarrow> truthy object \<longrightarrow> status (fst (POST_generate h (Inr reqBody))) = 200
        | Inl lastError \<Rightarrow>
            fst (POST_generate h (Inr reqBody)) = exhaustedResponse (engine h) (Some lastError))"
proof -
  let ?t = "preprocessInput text"
  note P = POST_generate_valid[OF assms(1-4)]
  note T = tryModels_first_fails[OF assms(5), of "ascii ''gemini-1.5-flash''"]
  show ?thesis
  proof (cases "generateObject h (ascii ''gemini-1.5-flash'') ?t (dateNow h) (timeNow h)")
    case (Inl e2)
    then have "tryModels h ?t modelNames None = ((JNull, Some e2), modelNames)"
      using T by (simp add: modelNames_def prod_eq_iff)
    then show ?thesis using Inl P by (simp add: modelNames_def)
  next
    case (Inr object)
    then have t: "tryModels h ?t modelNames None = ((object, Some modelError), modelNames)"
      using T by (simp add: modelNames_def prod_eq_iff)
    obtain r where r: "postprocessResult (engine h) object (dateNow h) = Inr r"
      using postprocessResult_total by blast
    show ?thesis using Inr P t r by (simp add: modelNames_def)
  qed
qed

text \<open>
  The same on a host whose first call fails with a quota error.
\<close>

theorem fallback_on_every_failure_witness:
  "propertyOf (JObject [(ascii ''text'', JString (ascii ''buy milk''))]) (ascii ''text'')
     = Inr (JString (ascii ''buy milk''))
   \<and> isValid (validateInput (ascii ''buy milk''))
   \<and> apiKey quotaHost = Some (ascii ''key'') \<and> ascii ''key'' \<noteq> []
   \<and> generateObject quotaHost (ascii ''gemini-2.5-flash'') (preprocessInput (ascii ''buy milk''))
        (dateNow quotaHost) (timeNow quotaHost) = Inl (Some (ascii ''Quota exceeded''))
   \<and> snd (POST_generate quotaHost (Inr (JObject [(ascii ''text'', JString (ascii ''buy milk''))])))
       = [ascii ''gemini-2.5-flash'', ascii ''gemini-1.5-flash'']
   \<and> status (fst (POST_generate quotaHost (Inr (JObject [(ascii ''text'', JString (ascii ''buy milk''))]))))
       = 200"
proof -
  have a: "propertyOf (JObject [(ascii ''text'', JString (ascii ''buy milk''))]) (ascii ''text'')
     = Inr (JString (ascii ''buy milk''))" by (simp add: propertyOf_def getProp_def)
  have b: "isValid (validateInput (ascii ''buy milk''))" by code_simp
  have c: "apiKey quotaHost = Some (ascii ''key'')" by (simp add: quotaHost_def)
  have d: "ascii ''key'' \<noteq> []" by (simp add: ascii_def)
  have e: "generateObject quotaHost (ascii ''gemini-2.5-flash'') (preprocessInput (ascii ''buy milk''))
        (dateNow quotaHost) (timeNow quotaHost) = Inl (Some (ascii ''Quota exceeded''))"
    by (simp add: quotaHost_def)
  have f: "generateObject quotaHost (ascii ''gemini-1.5-flash'') (preprocessInput (ascii ''buy milk''))
        (dateNow quotaHost) (timeNow quotaHost)
        = Inr (JObject [(k_title, JString (preprocessInput (ascii ''buy milk''))),
                        (k_priority, JString (ascii ''high''))])"
    by (simp add: quotaHost_def ascii_def)
  show ?thesis using a b c d e fallback_on_every_failure[OF a b c d e] by (simp add: f)
qed

text \<open>
  Claim C2 as stated fails: the first call fails with a quota error, which is not an
  error about the model, and the route still calls the second model name and answers
  200 with its result.
\<close>

theorem quota_failure_counterexample:
  "isQuotaError (lowerMessage (engine quotaHost) (Some (ascii ''Quota exceeded'')))
   \<and> \<not> isModelErrorExhausted (lowerMessage (engine quotaHost) (Some (ascii ''Quota exceeded'')))
   \<and> generateObject quotaHost (ascii ''gemini-2.5-flash'') (preprocessInput (ascii ''buy milk''))
        (dateNow quotaHost) (timeNow quotaHost) = Inl (Some (ascii ''Quota exceeded''))
   \<and> POST_generate quotaHost (Inr (JObject [(ascii ''text'', JString (ascii ''buy milk''))]))
      = (\<lparr>status = 200,
          json = DataBody (JObject
            [(k_title, JString (ascii ''buy milk'')), (k_priority, JString (ascii ''high'')),
             (k_description, JNull), (k_due_date, JNull), (k_due_time, JNull),
             (k_category, JNull)])\<rparr>,
         [ascii ''gemini-2.5-flash'', ascii ''gemini-1.5-flash''])"
  by code_simp


section \<open>Properties of the analyze-todos route\<close>

lemma guardedRate_ok: "rateOk t (guardedRate eng c t)"
  by (simp add: rateOk_def guardedRate_def percentage_def)

lemma percentage_pos: "0 < t \<Longrightarrow> rateOk t (percentage eng c t)"
  by (simp add: rateOk_def percentage_def)

lemma slotLines_ok: "list_all (\<lambda>(k, t, c, r). rateOk t r) (slotLines eng table)"
  by (induction table) (auto simp: slotLines_def guardedRate_ok)

lemma dayLines_ok: "list_all (\<lambda>(k, t, c, r). rateOk t r) (dayLines eng table)"
  by (induction table) (auto simp: dayLines_def percentage_pos)

lemma bumpAt_positive: "positive table \<Longrightarrow> positive (bumpAt k b table)"
  by (induction table) (auto simp: positive_def bumpAt_def bump_def split: if_splits)

lemma bumpAt_new_positive:
  "positive table \<Longrightarrow> positive (bumpAt k b (table @ [(k, (0, 0))]))"
  by (induction table) (auto simp: positive_def bumpAt_def bump_def split: if_splits)

lemma categoryStep_positive: "positive table \<Longrightarrow> positive (categoryStep eng todo table)"
  by (simp add: categoryStep_def Let_def bumpAt_positive bumpAt_new_positive)

lemma foldl_positive:
  "positive table \<Longrightarrow> positive (foldl (\<lambda>table todo. categoryStep eng todo table) table todos)"
  by (induction todos arbitrary: table) (simp_all add: categoryStep_positive)

lemma categoryStats_positive: "positive (categoryStats eng todos)"
  unfolding categoryStats_def by (rule foldl_positive) (simp add: positive_def)

lemma objectEntries_set: "set (objectEntries table) = set table"
  by (auto simp: objectEntries_def)

lemma categoryLines_ok:
  "list_all (\<lambda>(k, t, c, r). rateOk t r) (categoryLines eng (categoryStats eng todos))"
proof -
  have "\<forall>(k, (t, c)) \<in> set (objectEntries (categoryStats eng todos)). 0 < t"
    using categoryStats_positive[of eng todos]
    by (simp add: objectEntries_set positive_def list_all_iff)
  then show ?thesis
    by (auto simp: categoryLines_def list_all_iff percentage_pos)
qed

lemma collect_rates:
  "list_all (\<lambda>(k, (t, c)). 0 < t) entries \<Longrightarrow>
   collect (map (\<lambda>(k, cnt). rateOf eng cnt) entries) = Inr (map (\<lambda>(k, (t, c)). percentOf eng c t) entries)"
  by (induction entries) (auto simp: rateOf_def andThen_def)

lemma mostProductive_total: "\<exists>x. mostProductive eng table = Inr x"
proof -
  let ?entries = "filter (\<lambda>(k, (t, c)). t > 0) table"
  let ?rates = "map (\<lambda>(k, (t, c)). percentOf eng c t) ?entries"
  have pos: "list_all (\<lambda>(k, (t, c)). 0 < t) ?entries" by (auto simp: list_all_iff)
  have c: "collect (map (\<lambda>(k, cnt). rateOf eng cnt) ?entries) = Inr ?rates"
    using pos by (rule collect_rates)
  show ?thesis
  proof (cases "sort_key (\<lambda>(r, e). - r) (zip ?rates ?entries)")
    case Nil
    then show ?thesis by (simp add: mostProductive_def c andThen_def)
  next
    case (Cons x rest)
    obtain r k t cc where x: "x = (r, (k, (t, cc)))" by (metis prod_cases4)
    have "x \<in> set (sort_key (\<lambda>(r, e). - r) (zip ?rates ?entries))" using Cons by simp
    then have "x \<in> set (zip ?rates ?entries)" by simp
    then have "(k, (t, cc)) \<in> set ?entries" unfolding x by (rule set_zip_rightD)
    then have "0 < t" by simp
    then show ?thesis using Cons x by (simp add: mostProductive_def c andThen_def percentage_def)
  qed
qed

text \<open>
  Claim C8. For every task list, each completion rate that the aggregation computes
  (overall, per priority, on time, per time slot, per day of the week, per category,
  and those of the most productive slot and day) is computed without a division by
  zero, and is the string \<open>0\<close> when its denominator is zero. The rates of the slots
  are guarded for any table of slots; the days with no task are filtered out before
  their rates are computed; a category exists only once it has a task.
\<close>

theorem rates_guarded:
  "rateOk (st_total (basicStatistics eng now todos))
          (st_completionRate (basicStatistics eng now todos))
   \<and> rateOk (st_highPriorityTotal (basicStatistics eng now todos))
            (st_highPriorityRate (basicStatistics eng now todos))
   \<and> rateOk (st_mediumPriorityTotal (basicStatistics eng now todos))
            (st_mediumPriorityRate (basicStatistics eng now todos))
   \<and> rateOk (st_lowPriorityTotal (basicStatistics eng now todos))
            (st_lowPriorityRate (basicStatistics eng now todos))
   \<and> rateOk (st_withDueDate (basicStatistics eng now todos))
            (st_onTimeRate (basicStatistics eng now todos))
   \<and> list_all (\<lambda>(k, t, c, r). rateOk t r) (slotLines eng timeSlots)
   \<and> list_all (\<lambda>(k, t, c, r). rateOk t r) (dayLines eng (dayOfWeekStats eng todos))
   \<and> list_all (\<lambda>(k, t, c, r). rateOk t r) (categoryLines eng (categoryStats eng todos))
   \<and> (\<exists>x. mostProductive eng timeSlots = Inr x)
   \<and> (\<exists>x. mostProductive eng (dayOfWeekStats eng todos) = Inr x)"
proof -
  have a: "rateOk (st_total (basicStatistics eng now todos))
          (st_completionRate (basicStatistics eng now todos))"
    "rateOk (st_highPriorityTotal (basicStatistics eng now todos))
            (st_highPriorityRate (basicStatistics eng now todos))"
    "rateOk (st_mediumPriorityTotal (basicStatistics eng now todos))
            (st_mediumPriorityRate (basicStatistics eng now todos))"
    "rateOk (st_lowPriorityTotal (basicStatistics eng now todos))
            (st_lowPriorityRate (basicStatistics eng now todos))"
    "rateOk (st_withDueDate (basicStatistics eng now todos))
            (st_onTimeRate (basicStatistics eng now todos))"
    by (simp_all add: basicStatistics_def Let_def guardedRate_ok)
  show ?thesis
    by (intro conjI a slotLines_ok dayLines_ok categoryLines_ok mostProductive_total)
qed

text \<open>
  The same for the empty task list, where every denominator is zero.
\<close>

theorem rates_guarded_witness:
  "st_total (basicStatistics utcEngine 0 []) = 0
   \<and> st_completionRate (basicStatistics utcEngine 0 []) = Inr (ascii ''0'')
   \<and> st_highPriorityRate (basicStatistics utcEngine 0 []) = Inr (ascii ''0'')
   \<and> st_onTimeRate (basicStatistics utcEngine 0 []) = Inr (ascii ''0'')
   \<and> slotLines utcEngine timeSlots0
      = [(Morning, 0, 0, Inr (ascii ''0'')), (Afternoon, 0, 0, Inr (ascii ''0'')),
         (Evening, 0, 0, Inr (ascii ''0'')), (Night, 0, 0, Inr (ascii ''0''))]"
proof -
  have z: "st_total (basicStatistics utcEngine 0 []) = 0"
    "st_highPriorityTotal (basicStatistics utcEngine 0 []) = 0"
    "st_withDueDate (basicStatistics utcEngine 0 []) = 0"
    by (simp_all add: basicStatistics_def)
  have r: "rateOk 0 x \<longleftrightarrow> x = Inr (ascii ''0'')" for x
    by (cases x) (simp_all add: rateOk_def)
  have s: "slotLines utcEngine timeSlots0
      = [(Morning, 0, 0, Inr (ascii ''0'')), (Afternoon, 0, 0, Inr (ascii ''0'')),
         (Evening, 0, 0, Inr (ascii ''0'')), (Night, 0, 0, Inr (ascii ''0''))]"
    by (simp add: slotLines_def timeSlots0_def guardedRate_def)
  show ?thesis
    using rates_guarded[of utcEngine 0 "[]" timeSlots0]
    by (simp add: z r s)
qed

lemma slotOf_None: "slotOf h = None \<longleftrightarrow> \<not> num_ge h 9"
  by (cases h) (auto simp: slotOf_def)

lemma slotOf_early: "num_ge h 0 \<Longrightarrow> num_lt h 9 \<Longrightarrow> slotOf h = None"
  by (cases h) (auto simp: slotOf_def)

lemma bumpAt_keys: "map fst (bumpAt k b table) = map fst table"
  by (induction table) (auto simp: bumpAt_def)

lemma bumpAt_absent: "k \<notin> fst ` set table \<Longrightarrow> bumpAt k b table = table"
  by (induction table) (auto simp: bumpAt_def)

lemma slotTotal_bumpAt:
  "distinct (map fst table) \<Longrightarrow> k \<in> fst ` set table \<Longrightarrow>
   slotTotal (bumpAt k b table) = Suc (slotTotal table)"
proof (induction table)
  case Nil
  then show ?case by simp
next
  case (Cons x table)
  obtain k' t c where x: "x = (k', (t, c))" by (cases x) auto
  show ?case
  proof (cases "k' = k")
    case True
    then have "k \<notin> fst ` set table" using Cons.prems(1) x by auto
    then have "bumpAt k b table = table" by (rule bumpAt_absent)
    then have "bumpAt k b (x # table) = (k, bump b (t, c)) # table"
      using True x by (simp add: bumpAt_def)
    then show ?thesis using x by (simp add: slotTotal_def bump_def)
  next
    case False
    then have "k \<in> fst ` set table" using Cons.prems(2) x by auto
    moreover have "distinct (map fst table)" using Cons.prems(1) by simp
    ultimately have "slotTotal (bumpAt k b table) = Suc (slotTotal table)" by (rule Cons.IH[rotated])
    moreover have "bumpAt k b (x # table) = x # bumpAt k b table"
      using False x by (simp add: bumpAt_def)
    ultimately show ?thesis using x by (simp add: slotTotal_def)
  qed
qed

lemma slotTable_bump:
  assumes "slotTable table"
  shows "slotTable (bumpAt k b table)" and "slotTotal (bumpAt k b table) = Suc (slotTotal table)"
proof -
  show "slotTable (bumpAt k b table)" using assms by (simp add: slotTable_def bumpAt_keys)
  have d: "distinct (map fst table)" using assms by (simp add: slotTable_def)
  have "set (map fst table) = {Morning, Afternoon, Evening, Night}"
    using assms by (simp add: slotTable_def)
  then have "k \<in> fst ` set table" by (cases k) auto
  with d show "slotTotal (bumpAt k b table) = Suc (slotTotal table)" by (rule slotTotal_bumpAt)
qed

lemma timeSlotStep_cases:
  assumes "hasDueTime todo \<longrightarrow> typeof (field todo k_due_time) = TString"
  shows "timeSlotStep eng todo table =
     Inr (if counted eng todo
          then bumpAt (the (slotOf (dueHour eng todo))) (truthy (field todo k_completed)) table
          else table)"
proof (cases "field todo k_due_time")
  case (JString s)
  show ?thesis
  proof (cases "s = []")
    case True
    then show ?thesis using JString by (simp add: timeSlotStep_def counted_def hasDueTime_def)
  next
    case False
    show ?thesis
    proof (cases "slotOf (hoursOf eng s)")
      case None
      then have "\<not> num_ge (hoursOf eng s) 9" by (simp add: slotOf_None)
      then show ?thesis using JString False None
        by (simp add: timeSlotStep_def counted_def hasDueTime_def dueHour_def andThen_def)
    next
      case (Some slot)
      then have "num_ge (hoursOf eng s) 9" using slotOf_None[of "hoursOf eng s"] by simp
      then show ?thesis using JString False Some
        by (simp add: timeSlotStep_def counted_def hasDueTime_def dueHour_def andThen_def)
    qed
  qed
qed (use assms in \<open>auto simp: timeSlotStep_def counted_def hasDueTime_def\<close>)

lemma forEach_timeSlots:
  assumes "\<forall>t \<in> set todos. hasDueTime t \<longrightarrow> typeof (field t k_due_time) = TString"
    and "slotTable table"
  shows "\<exists>timeSlots. forEach (timeSlotStep eng) todos table = Inr timeSlots
           \<and> slotTable timeSlots
           \<and> slotTotal timeSlots = slotTotal table + length (filter (counted eng) todos)"
  using assms
proof (induction todos arbitrary: table)
  case Nil
  then show ?case by simp
next
  case (Cons todo todos)
  let ?next = "if counted eng todo
          then bumpAt (the (slotOf (dueHour eng todo))) (truthy (field todo k_completed)) table
          else table"
  have step: "timeSlotStep eng todo table = Inr ?next"
    using Cons.prems(1) by (intro timeSlotStep_cases) simp
  have t: "slotTable ?next" using Cons.prems(2) by (simp add: slotTable_bump)
  have n: "slotTotal ?next = slotTotal table + (if counted eng todo then 1 else 0)"
    using Cons.prems(2) by (simp add: slotTable_bump)
  obtain timeSlots where r: "forEach (timeSlotStep eng) todos ?next = Inr timeSlots"
      "slotTable timeSlots"
      "slotTotal timeSlots = slotTotal ?next + length (filter (counted eng) todos)"
    using Cons.IH[OF _ t] Cons.prems(1) by auto
  have "forEach (timeSlotStep eng) (todo # todos) table = Inr timeSlots"
    using step r(1) by (simp add: andThen_def)
  moreover have "slotTotal timeSlots = slotTotal table + length (filter (counted eng) (todo # todos))"
    using r(3) n by simp
  ultimately show ?case using r(2) by blast
qed

text \<open>
  Claim C10. A task whose due time has an hour from 0 to 8 leaves every slot as it
  is. For a task list in which every due time is a string, the loop ends without
  raising, and the four totals add up to the number of tasks that have a due time with
  an hour of at least 9.
\<close>

theorem early_hours_in_no_slot:
  "(hasDueTime todo \<and> typeof (field todo k_due_time) = TString
      \<and> num_ge (dueHour eng todo) 0 \<and> num_lt (dueHour eng todo) 9
     \<longrightarrow> timeSlotStep eng todo table = Inr table)
   \<and> ((\<forall>t \<in> set todos. hasDueTime t \<longrightarrow> typeof (field t k_due_time) = TString)
     \<longrightarrow> (\<exists>timeSlots. timeSlotStats eng todos = Inr timeSlots
           \<and> slotTotal timeSlots
               = length (filter (\<lambda>t. hasDueTime t \<and> num_ge (dueHour eng t) 9) todos)))"
proof (intro conjI impI)
  assume a: "hasDueTime todo \<and> typeof (field todo k_due_time) = TString
      \<and> num_ge (dueHour eng todo) 0 \<and> num_lt (dueHour eng todo) 9"
  then have "slotOf (dueHour eng todo) = None" by (simp add: slotOf_early)
  then have "\<not> counted eng todo" by (simp add: counted_def slotOf_None)
  then show "timeSlotStep eng todo table = Inr table"
    using a timeSlotStep_cases[of todo eng table] by simp
next
  assume wf: "\<forall>t \<in> set todos. hasDueTime t \<longrightarrow> typeof (field t k_due_time) = TString"
  have "slotTable timeSlots0" by (simp add: slotTable_def timeSlots0_def)
  with wf obtain timeSlots where "forEach (timeSlotStep eng) todos timeSlots0 = Inr timeSlots"
    "slotTotal timeSlots = slotTotal timeSlots0 + length (filter (counted eng) todos)"
    using forEach_timeSlots by blast
  moreover have "slotTotal timeSlots0 = 0" by (simp add: slotTotal_def timeSlots0_def)
  moreover have "counted eng = (\<lambda>t. hasDueTime t \<and> num_ge (dueHour eng t) 9)"
    by (auto simp: counted_def)
  ultimately show "\<exists>timeSlots. timeSlotStats eng todos = Inr timeSlots
           \<and> slotTotal timeSlots
               = length (filter (\<lambda>t. hasDueTime t \<and> num_ge (dueHour eng t) 9) todos)"
    by (simp add: timeSlotStats_def)
qed

text \<open>
  The same for two tasks due at 08:30 and at 14:00: both have a due time, and the
  totals add up to one.
\<close>

theorem early_hours_in_no_slot_witness:
  "hasDueTime earlyTask \<and> typeof (field earlyTask k_due_time) = TString
   \<and> num_ge (dueHour utcEngine earlyTask) 0 \<and> num_lt (dueHour utcEngine earlyTask) 9
   \<and> timeSlotStep utcEngine earlyTask timeSlots0 = Inr timeSlots0
   \<and> (\<exists>timeSlots. timeSlotStats utcEngine [earlyTask, lateTask] = Inr timeSlots
         \<and> slotTotal timeSlots = 1)
   \<and> length (filter hasDueTime [earlyTask, lateTask]) = 2"
proof -
  have a: "hasDueTime earlyTask \<and> typeof (field earlyTask k_due_time) = TString
     \<and> num_ge (dueHour utcEngine earlyTask) 0 \<and> num_lt (dueHour utcEngine earlyTask) 9"
    by code_simp
  have b: "\<forall>t \<in> set [earlyTask, lateTask]. hasDueTime t \<longrightarrow> typeof (field t k_due_time) = TString"
    by (simp add: earlyTask_def lateTask_def getProp_def ascii_def)
  have c: "length (filter (\<lambda>t. hasDueTime t \<and> num_ge (dueHour utcEngine t) 9) [earlyTask, lateTask]) = 1"
    by code_simp
  have d: "length (filter hasDueTime [earlyTask, lateTask]) = 2"
    by code_simp
  note T = early_hours_in_no_slot[of earlyTask utcEngine timeSlots0 "[earlyTask, lateTask]"]
  from T a have s: "timeSlotStep utcEngine earlyTask timeSlots0 = Inr timeSlots0" by blast
  from T b obtain timeSlots where t: "timeSlotStats utcEngine [earlyTask, lateTask] = Inr timeSlots"
    "slotTotal timeSlots
       = length (filter (\<lambda>t. hasDueTime t \<and> num_ge (dueHour utcEngine t) 9) [earlyTask, lateTask])"
    by blast
  from t(2) have "slotTotal timeSlots = 1" by (simp only: c)
  with t(1) have e: "\<exists>timeSlots. timeSlotStats utcEngine [earlyTask, lateTask] = Inr timeSlots
         \<and> slotTotal timeSlots = 1" by blast
  show ?thesis using a s e d by blast
qed

text \<open>
  Claim C9, as the code has it. The report is a function of the task list and of the
  clock, and the clock enters the overdue count and the count of tasks due within 24
  hours only: two runs over the same list, at whatever times, give reports that agree
  in every other statistic.
\<close>

theorem clock_only_in_two_counts:
  "map_sum id forgetClock (buildReport eng now1 todos)
   = map_sum id forgetClock (buildReport eng now2 todos)"
  by (cases "timeSlotStats eng todos")
     (simp_all add: buildReport_def andThen_def forgetClock_def basicStatistics_def Let_def)

text \<open>
  The same for one task and two clock readings a moment before and after its due date.
\<close>

theorem clock_only_in_two_counts_witness:
  "map_sum id forgetClock (buildReport utcEngine 1749513599999 [earlyTask])
   = map_sum id forgetClock (buildReport utcEngine 1749513600001 [earlyTask])"
  by (rule clock_only_in_two_counts)

text \<open>
  Claim C9 as stated fails: the same list gives an overdue count of 0 a millisecond
  before the due date and of 1 a millisecond after it.
\<close>

theorem overdue_clock_counterexample:
  "map_sum id (st_overdue \<circ> stats) (buildReport utcEngine 1749513599999 [earlyTask]) = Inr 0
   \<and> map_sum id (st_overdue \<circ> stats) (buildReport utcEngine 1749513600001 [earlyTask]) = Inr 1"
  by code_simp

lemma catchResponse_status: "status (catchResponse eng m e) \<noteq> 400"
  by (simp add: catchResponse_def Let_def)

lemma buildReport_Nil: "\<exists>rep. buildReport eng now [] = Inr rep"
  by (simp add: buildReport_def timeSlotStats_def andThen_def)

text \<open>
  Claim C1, as the code has it. A request whose \<open>todos\<close> is the empty array and whose
  period is \<open>today\<close> or \<open>week\<close> is never answered with 400. Without an API key the
  answer is 500 and the model is not called; with one, the model is called once.
\<close>

theorem empty_todos_accepted:
  assumes "propertyOf reqBody (ascii ''todos'') = Inr (JArray [])"
    and "propertyOf reqBody (ascii ''period'') = Inr period"
    and "period \<in> set periods"
  shows "status (fst (POST_analyze h (Inr reqBody))) \<noteq> 400
       \<and> snd (POST_analyze h (Inr reqBody)) = (if apiKey h = None \<or> apiKey h = Some [] then 0 else 1)
       \<and> (apiKey h = None \<or> apiKey h = Some [] \<longrightarrow> status (fst (POST_analyze h (Inr reqBody))) = 500)"
proof -
  have p: "truthy period" using assms(3) by (auto simp: periods_def ascii_def)
  obtain rep where rep: "buildReport (engine h) (clock h) [] = Inr rep"
    using buildReport_Nil by blast
  show ?thesis
  proof (cases "apiKey h = None \<or> apiKey h = Some []")
    case True
    then show ?thesis using assms p by (auto simp: POST_analyze_def)
  next
    case False
    then show ?thesis using assms p rep
      by (cases "generateAnalysis h period rep [] (clock h)")
         (auto simp: POST_analyze_def catchResponse_status)
  qed
qed

text \<open>
  The same on a host with an API key, for the period \<open>week\<close>.
\<close>

theorem empty_todos_accepted_witness:
  "propertyOf (JObject [(ascii ''todos'', JArray []), (ascii ''period'', JString (ascii ''week''))])
      (ascii ''todos'') = Inr (JArray [])
   \<and> propertyOf (JObject [(ascii ''todos'', JArray []), (ascii ''period'', JString (ascii ''week''))])
      (ascii ''period'') = Inr (JString (ascii ''week''))
   \<and> JString (ascii ''week'') \<in> set periods
   \<and> status (fst (POST_analyze okAnaHost
        (Inr (JObject [(ascii ''todos'', JArray []), (ascii ''period'', JString (ascii ''week''))]))))
      \<noteq> 400
   \<and> snd (POST_analyze okAnaHost
        (Inr (JObject [(ascii ''todos'', JArray []), (ascii ''period'', JString (ascii ''week''))])))
      = 1"
proof -
  let ?b = "JObject [(ascii ''todos'', JArray []), (ascii ''period'', JString (ascii ''week''))]"
  have a: "propertyOf ?b (ascii ''todos'') = Inr (JArray [])"
    by (simp add: propertyOf_def getProp_def ascii_def)
  have b: "propertyOf ?b (ascii ''period'') = Inr (JString (ascii ''week''))"
    by (simp add: propertyOf_def getProp_def ascii_def)
  have c: "JString (ascii ''week'') \<in> set periods" by (simp add: periods_def)
  have k: "apiKey okAnaHost = Some (ascii ''key'')" by (simp add: okAnaHost_def)
  show ?thesis using a b c empty_todos_accepted[OF a b c, of okAnaHost]
    by (simp add: k ascii_def)
qed

text \<open>
  Claim C1 as stated fails: with an empty array and the period \<open>today\<close> the model is
  called once and the answer is 200 with its result.
\<close>

theorem empty_todos_counterexample:
  "POST_analyze okAnaHost
     (Inr (JObject [(ascii ''todos'', JArray []), (ascii ''period'', JString (ascii ''today''))]))
   = (\<lparr>status = 200,
       json = DataBody (JObject [(ascii ''summary'', JString (ascii ''nothing to do''))])\<rparr>, 1)"
  by code_simp

end
